theory Spec2Isabelle
  imports Main
begin

section \<open>Data types shared by the TX sensor node and the RX Master\<close>

text \<open>
  Both sketches declare the same four enumerations and the same two structs.  The C
  type \<^verbatim>\<open>int\<close> is modelled by \<open>int\<close>: the modelled functions only copy and compare such
  values, they never do arithmetic on them, so every machine integer (16 bit on the AVR
  boards, 32 bit on the ESP32) is covered.

  A command kind and a power level arrive in a ping read raw from the radio, and the
  sketches switch over them with the numeric labels \<^verbatim>\<open>case 0:\<close>, \<^verbatim>\<open>case 1:\<close>, ... and a
  \<^verbatim>\<open>default\<close> branch.  So \<open>cmd_type\<close> and \<open>PA_type\<close> are integers, the enumerators are
  names for the numbers the source gives them, and any other number is a value such a
  field can hold.

  The alarm kind and the danger level are only ever assigned from enumerators; they are
  datatypes whose constructors keep the source's names, and \<open>alarm_val\<close> and \<open>dng_val\<close>
  give the numeric values the source assigns, which is what the comparisons
  \<^verbatim>\<open>almNum >= alm_temp\<close> and \<^verbatim>\<open>dngNum >= dng_temp\<close> read.
\<close>

type_synonym cmd_type = int

abbreviation nada :: cmd_type where "nada \<equiv> 0"

abbreviation chan_chg :: cmd_type where "chan_chg \<equiv> 1"

abbreviation rad_chg :: cmd_type where "rad_chg \<equiv> 2"

abbreviation pa_chg :: cmd_type where "pa_chg \<equiv> 3"

abbreviation all_chg :: cmd_type where "all_chg \<equiv> 4"

abbreviation tar_chg :: cmd_type where "tar_chg \<equiv> 5"

abbreviation response :: cmd_type where "response \<equiv> 6"

type_synonym PA_type = int

abbreviation PA_MIN :: PA_type where "PA_MIN \<equiv> 0"

abbreviation PA_LOW :: PA_type where "PA_LOW \<equiv> 1"

abbreviation PA_HIGH :: PA_type where "PA_HIGH \<equiv> 2"

abbreviation PA_MAX :: PA_type where "PA_MAX \<equiv> 3"

datatype Alarm_type =
  ALM_NONE | HUM_LOW | HUM_HIGH | TEMP_LOW | CO2_LOW | TEMP_HIGH
  | CO2_HIGH | CO2_GOOD | LOUDNOISE | INTRUDER | CO2_DNG | TEMP_FIRE

datatype Dng_level = DNG_NONE | DNG_LOW | DNG_MED | DNG_HIGH | DNG_MAX

fun alarm_val :: "Alarm_type \<Rightarrow> int" where
  "alarm_val ALM_NONE = 0"
| "alarm_val HUM_LOW = 1"
| "alarm_val HUM_HIGH = 2"
| "alarm_val TEMP_LOW = 3"
| "alarm_val CO2_LOW = 4"
| "alarm_val TEMP_HIGH = 5"
| "alarm_val CO2_HIGH = 6"
| "alarm_val CO2_GOOD = 7"
| "alarm_val LOUDNOISE = 8"
| "alarm_val INTRUDER = 9"
| "alarm_val CO2_DNG = 10"
| "alarm_val TEMP_FIRE = 11"

fun dng_val :: "Dng_level \<Rightarrow> int" where
  "dng_val DNG_NONE = 0"
| "dng_val DNG_LOW = 1"
| "dng_val DNG_MED = 2"
| "dng_val DNG_HIGH = 3"
| "dng_val DNG_MAX = 4"

record pingCmd =
  my_cmd :: cmd_type
  ch_cmd :: int
  r_cmd :: int
  pa_cmd :: PA_type
  tar_cmd :: int
  alm_cmd :: Alarm_type
  dng_cmd :: Dng_level

text \<open>
  The struct \<^verbatim>\<open>dataStruct\<close>.  Its first two fields are called \<^verbatim>\<open>chNum\<close> and
  \<^verbatim>\<open>radNum\<close> in the source; the TX sketch has globals of the same names, so the
  fields are \<open>msg_chNum\<close> and \<open>msg_radNum\<close> here.
\<close>

record dataStruct =
  msg_chNum :: int
  msg_radNum :: int
  co2_val :: int
  h_val :: int
  c_val :: int
  f_val :: int
  pir_state :: int
  audio_gate :: int
  ping :: pingCmd

text \<open>The zero-initialised structs (\<^verbatim>\<open>= {0}\<close> and \<^verbatim>\<open>= {}\<close> in the source).\<close>

definition zero_ping :: pingCmd where
  "zero_ping = \<lparr>my_cmd = nada, ch_cmd = 0, r_cmd = 0, pa_cmd = PA_MIN, tar_cmd = 0,
     alm_cmd = ALM_NONE, dng_cmd = DNG_NONE\<rparr>"

definition zero_data :: dataStruct where
  "zero_data = \<lparr>msg_chNum = 0, msg_radNum = 0, co2_val = 0, h_val = 0, c_val = 0, f_val = 0,
     pir_state = 0, audio_gate = 0, ping = zero_ping\<rparr>"

text \<open>The six pipe addresses (\<^verbatim>\<open>byte addresses[][6]\<close>).\<close>

definition addresses :: "string list" where
  "addresses = [''1Node'', ''2Node'', ''3Node'', ''4Node'', ''5Node'', ''6Node'']"

section \<open>Alarm triage\<close>

text \<open>
  Every threshold block of \<^verbatim>\<open>triage_data\<close> (TX) and \<^verbatim>\<open>triage_msg\<close> (Master) has the
  same body: it assigns the block's alarm and danger constants to the globals, raises the
  running maxima \<^verbatim>\<open>alm_temp\<close> and \<^verbatim>\<open>dng_temp\<close> with \<^verbatim>\<open>>=\<close>, and prints one line on the
  serial port.  \<open>triage_vars\<close> holds the variables such a block touches: the two locals,
  the two globals the block assigns (\<^verbatim>\<open>almNum\<close> and \<^verbatim>\<open>dngNum\<close> on the TX node,
  \<^verbatim>\<open>alm_msg\<close> and \<^verbatim>\<open>dng_msg\<close> on the Master; \<open>alm_now\<close> and \<open>dng_now\<close> here) and
  \<open>printed\<close>, the list of alarm lines written so far, one \<open>AlarmLine\<close> per
  \<^verbatim>\<open>Serial.println\<close> of a block, holding the numbers the line shows (alarm, the record's
  radio number on the Master, the sensor reading, danger).  Other diagnostic output of
  the sketches is not modelled.
\<close>

datatype serial_line = AlarmLine (line_alarm: Alarm_type) (line_radio: "int option")
  (line_reading: int) (line_danger: Dng_level)

record triage_vars =
  alm_temp :: Alarm_type
  dng_temp :: Dng_level
  alm_now :: Alarm_type
  dng_now :: Dng_level
  printed :: "serial_line list"

definition alarm_block ::
  "Alarm_type \<Rightarrow> Dng_level \<Rightarrow> int option \<Rightarrow> int \<Rightarrow> triage_vars \<Rightarrow> triage_vars" where
  "alarm_block a d rn x v0 =
    (let v = v0\<lparr>alm_now := a, dng_now := d\<rparr>;
         v = (if alarm_val (alm_now v) \<ge> alarm_val (alm_temp v)
              then v\<lparr>alm_temp := alm_now v\<rparr> else v);
         v = (if dng_val (dng_now v) \<ge> dng_val (dng_temp v)
              then v\<lparr>dng_temp := dng_now v\<rparr> else v)
     in v\<lparr>printed := printed v @ [AlarmLine (alm_now v) rn x (dng_now v)]\<rparr>)"

text \<open>The threshold blocks of the TX node's \<^verbatim>\<open>triage_data\<close>, in the source's order.\<close>

definition triage_data_checks :: "dataStruct \<Rightarrow> triage_vars \<Rightarrow> triage_vars" where
  "triage_data_checks T v0 =
    (let v = v0;
         v = (if h_val T < 10 then alarm_block HUM_LOW DNG_NONE None (h_val T) v else v);
         v = (if h_val T \<ge> 85 then alarm_block HUM_HIGH DNG_LOW None (h_val T) v else v);
         v = (if c_val T < 20 then alarm_block TEMP_LOW DNG_LOW None (c_val T) v else v);
         v = (if c_val T \<ge> 40 \<and> c_val T < 100
              then alarm_block TEMP_HIGH DNG_HIGH None (c_val T) v else v);
         v = (if c_val T \<ge> 100 then alarm_block TEMP_FIRE DNG_MAX None (c_val T) v else v);
         v = (if co2_val T \<le> 0 then alarm_block CO2_LOW DNG_NONE None (co2_val T) v else v);
         v = (if co2_val T \<ge> 400 \<and> co2_val T \<le> 1600
              then alarm_block CO2_GOOD DNG_NONE None (co2_val T) v else v);
         v = (if co2_val T \<ge> 1800 \<and> co2_val T < 3000
              then alarm_block CO2_HIGH DNG_HIGH None (co2_val T) v else v);
         v = (if co2_val T \<ge> 3000 then alarm_block CO2_DNG DNG_MAX None (co2_val T) v else v);
         v = (if audio_gate T = 1
              then alarm_block LOUDNOISE DNG_MED None (audio_gate T) v else v);
         v = (if pir_state T = 1
              then alarm_block INTRUDER DNG_HIGH None (pir_state T) v else v)
     in v)"

text \<open>The threshold blocks of the Master's \<^verbatim>\<open>triage_msg\<close>, in the source's order.\<close>

definition triage_msg_checks :: "dataStruct \<Rightarrow> triage_vars \<Rightarrow> triage_vars" where
  "triage_msg_checks T v0 =
    (let rn = Some (msg_radNum T);
         v = v0;
         v = (if h_val T < 10 then alarm_block HUM_LOW DNG_NONE rn (h_val T) v else v);
         v = (if h_val T \<ge> 85 then alarm_block HUM_HIGH DNG_LOW rn (h_val T) v else v);
         v = (if c_val T < 20 then alarm_block TEMP_LOW DNG_LOW rn (c_val T) v else v);
         v = (if c_val T > 40 then alarm_block TEMP_HIGH DNG_HIGH rn (c_val T) v else v);
         v = (if c_val T > 100 then alarm_block TEMP_FIRE DNG_MAX rn (c_val T) v else v);
         v = (if co2_val T \<le> 0 then alarm_block CO2_LOW DNG_NONE rn (co2_val T) v else v);
         v = (if co2_val T \<ge> 400 \<and> co2_val T < 2000
              then alarm_block CO2_GOOD DNG_NONE rn (co2_val T) v else v);
         v = (if co2_val T \<ge> 2000 \<and> co2_val T < 3000
              then alarm_block CO2_HIGH DNG_HIGH rn (co2_val T) v else v);
         v = (if co2_val T \<ge> 3000 then alarm_block CO2_DNG DNG_MAX rn (co2_val T) v else v);
         v = (if pir_state T = 1
              then alarm_block INTRUDER DNG_HIGH rn (pir_state T) v else v);
         v = (if audio_gate T = 1
              then alarm_block LOUDNOISE DNG_MED rn (audio_gate T) v else v)
     in v)"

section \<open>The radio driver\<close>

text \<open>
  The sketches drive the nRF24L01 through the RF24 library, which is not part of the
  repository.  The model keeps, for every setting, the value the sketch last passed to
  the driver; \<open>None\<close> stands for the driver's own default after \<^verbatim>\<open>radio.begin()\<close>.
  A call of \<^verbatim>\<open>radio.write\<close> appends a frame to \<open>rf_sent\<close>: the payload together with
  the channel, power level and writing-pipe address in force at that moment.  The data
  rate is the same constant in every call and is left out.  \<open>rf24_pa_dbm_e\<close> is the
  driver's own enumeration of power levels, the argument type of \<^verbatim>\<open>radio.setPALevel\<close>.
\<close>

datatype rf24_pa_dbm_e = RF24_PA_MIN | RF24_PA_LOW | RF24_PA_HIGH | RF24_PA_MAX

record 'p frame =
  frame_channel :: "int option"
  frame_pa :: "rf24_pa_dbm_e option"
  frame_address :: "string option"
  frame_payload :: 'p

record 'p rf24 =
  rf_channel :: "int option"
  rf_pa_level :: "rf24_pa_dbm_e option"
  rf_writing_pipe :: "string option"
  rf_reading_pipe :: "nat \<rightharpoonup> string"
  rf_listening :: bool
  rf_sent :: "'p frame list"

definition radio_off :: "'p rf24" where
  "radio_off = \<lparr>rf_channel = None, rf_pa_level = None, rf_writing_pipe = None,
     rf_reading_pipe = Map.empty, rf_listening = False, rf_sent = []\<rparr>"

definition radio_begin :: "'p rf24 \<Rightarrow> 'p rf24" where
  "radio_begin r = r\<lparr>rf_channel := None, rf_pa_level := None, rf_writing_pipe := None,
     rf_reading_pipe := Map.empty, rf_listening := False\<rparr>"

definition radio_setChannel :: "int \<Rightarrow> 'p rf24 \<Rightarrow> 'p rf24" where
  "radio_setChannel c r = r\<lparr>rf_channel := Some c\<rparr>"

definition radio_setPALevel :: "rf24_pa_dbm_e \<Rightarrow> 'p rf24 \<Rightarrow> 'p rf24" where
  "radio_setPALevel p r = r\<lparr>rf_pa_level := Some p\<rparr>"

definition radio_openWritingPipe :: "string \<Rightarrow> 'p rf24 \<Rightarrow> 'p rf24" where
  "radio_openWritingPipe a r = r\<lparr>rf_writing_pipe := Some a\<rparr>"

definition radio_openReadingPipe :: "nat \<Rightarrow> string \<Rightarrow> 'p rf24 \<Rightarrow> 'p rf24" where
  "radio_openReadingPipe n a r = r\<lparr>rf_reading_pipe := (rf_reading_pipe r)(n \<mapsto> a)\<rparr>"

definition radio_startListening :: "'p rf24 \<Rightarrow> 'p rf24" where
  "radio_startListening r = r\<lparr>rf_listening := True\<rparr>"

definition radio_stopListening :: "'p rf24 \<Rightarrow> 'p rf24" where
  "radio_stopListening r = r\<lparr>rf_listening := False\<rparr>"

definition radio_write :: "'p \<Rightarrow> 'p rf24 \<Rightarrow> 'p rf24" where
  "radio_write p r = r\<lparr>rf_sent := rf_sent r @
     [\<lparr>frame_channel = rf_channel r, frame_pa = rf_pa_level r,
       frame_address = rf_writing_pipe r, frame_payload = p\<rparr>]\<rparr>"

section \<open>The TX sensor node\<close>

text \<open>
  The globals of the TX sketch that the modelled functions read or write.  The three
  \<^verbatim>\<open>float\<close> globals \<^verbatim>\<open>hNum\<close>, \<^verbatim>\<open>tNum\<close> and \<^verbatim>\<open>fNum\<close> hold the integral values 40, 25 and
  72 and are only ever copied into \<^verbatim>\<open>int\<close> fields; the model keeps them as integers.
\<close>

record tx_node =
  intruderFlag :: bool
  audioFlag :: bool
  respFlag :: bool
  co2Num :: int
  pirNum :: int
  gateNum :: int
  hNum :: int
  tNum :: int
  fNum :: int
  myNum :: cmd_type
  radNum :: int
  chNum :: int
  pwrNum :: PA_type
  tarNum :: int
  almNum :: Alarm_type
  dngNum :: Dng_level
  myCmd :: cmd_type
  radCmd :: int
  chCmd :: int
  paCmd :: PA_type
  tarCmd :: int
  almCmd :: Alarm_type
  dngCmd :: Dng_level
  SentMessage :: dataStruct
  PongMessage :: pingCmd
  radio :: "dataStruct rf24"

text \<open>The globals as their initialisers leave them, before the start-up routine runs.\<close>

definition tx_power_on :: tx_node where
  "tx_power_on = \<lparr>intruderFlag = False, audioFlag = False, respFlag = False,
     co2Num = 450, pirNum = 0, gateNum = 0, hNum = 40, tNum = 25, fNum = 72,
     myNum = nada, radNum = 0, chNum = 0, pwrNum = PA_MIN, tarNum = 0,
     almNum = ALM_NONE, dngNum = DNG_NONE,
     myCmd = nada, radCmd = 0, chCmd = 0, paCmd = PA_MIN, tarCmd = 0,
     almCmd = ALM_NONE, dngCmd = DNG_NONE,
     SentMessage = zero_data, PongMessage = zero_ping, radio = radio_off\<rparr>"

text \<open>\<^verbatim>\<open>checkRadioConn\<close> only prints diagnostics; it changes no variable and no setting.\<close>

definition checkRadioConn :: "tx_node \<Rightarrow> tx_node" where
  "checkRadioConn s = s"

text \<open>
  \<^verbatim>\<open>setPowerLevel\<close> switches over the labels 0 to 3; on any other value its
  \<^verbatim>\<open>default\<close> branch leaves the radio as it is.
\<close>

definition setPowerLevel :: "PA_type \<Rightarrow> tx_node \<Rightarrow> tx_node" where
  "setPowerLevel pwr s =
    (if pwr = 0 then s\<lparr>radio := radio_setPALevel RF24_PA_MIN (radio s)\<rparr>
     else if pwr = 1 then s\<lparr>radio := radio_setPALevel RF24_PA_LOW (radio s)\<rparr>
     else if pwr = 2 then s\<lparr>radio := radio_setPALevel RF24_PA_HIGH (radio s)\<rparr>
     else if pwr = 3 then s\<lparr>radio := radio_setPALevel RF24_PA_MAX (radio s)\<rparr>
     else s)"

definition initRadioValues :: "int \<Rightarrow> int \<Rightarrow> PA_type \<Rightarrow> tx_node \<Rightarrow> tx_node" where
  "initRadioValues rn mychannel pat s = s\<lparr>radNum := rn, chNum := mychannel, pwrNum := pat\<rparr>"

definition setupTXRadio :: "int \<Rightarrow> int \<Rightarrow> PA_type \<Rightarrow> tx_node \<Rightarrow> tx_node" where
  "setupTXRadio rn0 mychannel pat s0 =
    (let rn = (if rn0 > 0 \<and> rn0 < 6 then rn0 else 1);
         s = s0\<lparr>radio := radio_begin (radio s0)\<rparr>;
         s = s\<lparr>radio := radio_setChannel mychannel (radio s)\<rparr>;
         s = setPowerLevel pat s;
         s = s\<lparr>radNum := rn, chNum := mychannel, pwrNum := pat\<rparr>;
         s = s\<lparr>radio := radio_openWritingPipe (addresses ! nat rn) (radio s)\<rparr>;
         s = s\<lparr>radio := radio_openReadingPipe 1 (addresses ! 0) (radio s)\<rparr>;
         s = s\<lparr>radio := radio_startListening (radio s)\<rparr>
     in checkRadioConn s)"

text \<open>
  The part of the TX sketch's start-up routine that touches the modelled state:
  \<^verbatim>\<open>initRadioValues(5, 81, PA_MIN)\<close> followed by \<^verbatim>\<open>setupTXRadio(radNum,chNum,pwrNum)\<close>.
\<close>

definition tx_setup :: "tx_node \<Rightarrow> tx_node" where
  "tx_setup s0 =
    (let s = initRadioValues 5 81 PA_MIN s0
     in setupTXRadio (radNum s) (chNum s) (pwrNum s) s)"

definition get_pong_cmd :: "tx_node \<Rightarrow> tx_node" where
  "get_pong_cmd s =
    s\<lparr>myNum := my_cmd (ping (SentMessage s)),
      chNum := ch_cmd (ping (SentMessage s)),
      radNum := r_cmd (ping (SentMessage s)),
      pwrNum := pa_cmd (ping (SentMessage s)),
      tarNum := tar_cmd (ping (SentMessage s)),
      almNum := alm_cmd (ping (SentMessage s)),
      dngNum := dng_cmd (ping (SentMessage s)),
      myCmd := my_cmd (PongMessage s),
      chCmd := ch_cmd (PongMessage s),
      radCmd := r_cmd (PongMessage s),
      paCmd := pa_cmd (PongMessage s),
      tarCmd := tar_cmd (PongMessage s),
      almCmd := alm_cmd (PongMessage s),
      dngCmd := dng_cmd (PongMessage s)\<rparr>"

text \<open>
  \<^verbatim>\<open>get_pong_cmd_RX\<close> switches over the labels 0 to 6 of the received command kind; on
  any other value its \<^verbatim>\<open>default\<close> branch changes nothing.
\<close>

definition get_pong_cmd_RX :: "tx_node \<Rightarrow> tx_node" where
  "get_pong_cmd_RX s0 =
    (let s = get_pong_cmd s0 in
     if chCmd s = chNum s \<and> tarCmd s = radNum s then
       (if myCmd s = 0 then checkRadioConn s
        else if myCmd s = 1 then s\<lparr>chNum := ch_cmd (PongMessage s)\<rparr>
        else if myCmd s = 2 then s\<lparr>radNum := r_cmd (PongMessage s)\<rparr>
        else if myCmd s = 3 then s\<lparr>pwrNum := pa_cmd (PongMessage s)\<rparr>
        else if myCmd s = 4 then s\<lparr>chNum := ch_cmd (PongMessage s),
                                     radNum := r_cmd (PongMessage s),
                                     pwrNum := pa_cmd (PongMessage s)\<rparr>
        else if myCmd s = 5 then s\<lparr>SentMessage := (SentMessage s)
               \<lparr>ping := (ping (SentMessage s))\<lparr>tar_cmd := tar_cmd (PongMessage s)\<rparr>\<rparr>\<rparr>
        else if myCmd s = 6 then s\<lparr>SentMessage := (SentMessage s)
               \<lparr>ping := (ping (SentMessage s))\<lparr>tar_cmd := tar_cmd (PongMessage s)\<rparr>\<rparr>\<rparr>
        else s)
     else s)"

text \<open>
  \<^verbatim>\<open>triage_data\<close> returns the alarm lines it printed together with the new state: the
  maxima go into the outgoing record's ping and into \<^verbatim>\<open>almNum\<close> and \<^verbatim>\<open>dngNum\<close>.
\<close>

definition triage_data :: "tx_node \<Rightarrow> serial_line list \<times> tx_node" where
  "triage_data s =
    (let TempMessage = SentMessage s;
         v = triage_data_checks TempMessage
               \<lparr>alm_temp = ALM_NONE, dng_temp = DNG_NONE,
                alm_now = almNum s, dng_now = dngNum s, printed = []\<rparr>
     in (printed v,
         s\<lparr>SentMessage := (SentMessage s)
              \<lparr>ping := (ping (SentMessage s))\<lparr>alm_cmd := alm_temp v, dng_cmd := dng_temp v\<rparr>\<rparr>,
           almNum := alm_temp v, dngNum := dng_temp v\<rparr>))"

definition pack_sent_msg :: "tx_node \<Rightarrow> tx_node" where
  "pack_sent_msg s =
    s\<lparr>SentMessage :=
        \<lparr>msg_chNum = chNum s, msg_radNum = radNum s, co2_val = co2Num s, h_val = hNum s,
         c_val = tNum s, f_val = fNum s, pir_state = pirNum s, audio_gate = gateNum s,
         ping = \<lparr>my_cmd = myNum s, ch_cmd = chNum s, r_cmd = radNum s, pa_cmd = pwrNum s,
                 tar_cmd = tarNum s, alm_cmd = almNum s, dng_cmd = dngNum s\<rparr>\<rparr>\<rparr>"

text \<open>
  The parameter of \<^verbatim>\<open>transmit_response_to_RX\<close> shadows the global \<^verbatim>\<open>respFlag\<close>, so the
  assignment at its end does not reach the global.
\<close>

definition transmit_response_to_RX :: "bool \<Rightarrow> tx_node \<Rightarrow> tx_node" where
  "transmit_response_to_RX flag s0 =
    (if flag then
       (let s = pack_sent_msg s0;
            s = snd (triage_data s);
            s = s\<lparr>radio := radio_stopListening (radio s)\<rparr>;
            s = s\<lparr>radio := radio_write (SentMessage s) (radio s)\<rparr>;
            s = s\<lparr>radio := radio_openReadingPipe 1 (addresses ! 0) (radio s)\<rparr>;
            s = s\<lparr>radio := radio_startListening (radio s)\<rparr>
        in s)
     else s0)"

text \<open>
  \<^verbatim>\<open>receive_msg\<close>: the argument is what the radio holds, \<open>None\<close> when
  \<^verbatim>\<open>radio.available()\<close> is false and \<open>Some p\<close> when \<^verbatim>\<open>radio.read\<close> delivers the ping \<open>p\<close>.
\<close>

definition receive_msg :: "pingCmd option \<Rightarrow> tx_node \<Rightarrow> tx_node" where
  "receive_msg incoming s0 =
    (case incoming of
       None \<Rightarrow> s0
     | Some p \<Rightarrow>
        (let s = s0\<lparr>PongMessage := p\<rparr>;
             s = get_pong_cmd_RX s;
             s = setupTXRadio (radNum s) (chNum s) (pwrNum s) s;
             s = s\<lparr>respFlag := True\<rparr>;
             s = transmit_response_to_RX (respFlag s) s
         in s))"

section \<open>The RX Master\<close>

record master_node =
  alm_msg :: Alarm_type
  dng_msg :: Dng_level
  ReceivedMessage :: dataStruct
  PingMessage :: pingCmd
  master_radio :: "pingCmd rf24"

definition triage_msg :: "master_node \<Rightarrow> serial_line list \<times> master_node" where
  "triage_msg m =
    (let TempMessage = ReceivedMessage m;
         v = triage_msg_checks TempMessage
               \<lparr>alm_temp = ALM_NONE, dng_temp = DNG_NONE,
                alm_now = alm_msg m, dng_now = dng_msg m, printed = []\<rparr>
     in (printed v,
         m\<lparr>ReceivedMessage := (ReceivedMessage m)
              \<lparr>ping := (ping (ReceivedMessage m))\<lparr>alm_cmd := alm_temp v, dng_cmd := dng_temp v\<rparr>\<rparr>,
           alm_msg := alm_temp v, dng_msg := dng_temp v\<rparr>))"

definition send_ping_cmd ::
  "cmd_type \<Rightarrow> int \<Rightarrow> int \<Rightarrow> PA_type \<Rightarrow> int \<Rightarrow> master_node \<Rightarrow> master_node" where
  "send_ping_cmd cmd ch rn pat target m0 =
    (let m = m0\<lparr>PingMessage := (PingMessage m0)\<lparr>my_cmd := cmd\<rparr>\<rparr>;
         m = m\<lparr>PingMessage := (PingMessage m)\<lparr>ch_cmd := ch\<rparr>\<rparr>;
         m = m\<lparr>PingMessage := (PingMessage m)\<lparr>r_cmd := rn\<rparr>\<rparr>;
         m = m\<lparr>PingMessage := (PingMessage m)\<lparr>pa_cmd := pat\<rparr>\<rparr>;
         m = m\<lparr>PingMessage := (PingMessage m)\<lparr>tar_cmd := target\<rparr>\<rparr>;
         m = m\<lparr>PingMessage := (PingMessage m)\<lparr>alm_cmd := ALM_NONE\<rparr>\<rparr>;
         m = m\<lparr>PingMessage := (PingMessage m)\<lparr>dng_cmd := DNG_NONE\<rparr>\<rparr>;
         m = m\<lparr>master_radio := radio_stopListening (master_radio m)\<rparr>;
         m = m\<lparr>master_radio := radio_openWritingPipe (addresses ! 0) (master_radio m)\<rparr>;
         m = m\<lparr>master_radio := radio_write (PingMessage m) (master_radio m)\<rparr>;
         m = m\<lparr>master_radio := radio_startListening (master_radio m)\<rparr>
     in m)"

text \<open>The Master's globals as their initialisers leave them.\<close>

definition master_power_on :: master_node where
  "master_power_on = \<lparr>alm_msg = ALM_NONE, dng_msg = DNG_NONE, ReceivedMessage = zero_data,
     PingMessage = zero_ping, master_radio = radio_off\<rparr>"

section \<open>Notions used to state the properties\<close>

subsection \<open>The threshold predicates as tables\<close>

text \<open>
  A threshold predicate is a condition together with the alarm, the danger level and the
  reading its block reports.  \<open>tx_predicates\<close> and \<open>master_predicates\<close> list the
  conditions of the two triage routines in the order the routines test them;
  \<open>run_blocks\<close> runs the blocks of such a table one after the other and \<open>fired\<close> keeps
  the candidates of the predicates that hold.  The lemmas \<open>triage_data_checks_run\<close> and
  \<open>triage_msg_checks_run\<close> below show that the routines are exactly these runs.
\<close>

type_synonym predicate = "bool \<times> Alarm_type \<times> Dng_level \<times> int"

definition tx_predicates :: "dataStruct \<Rightarrow> predicate list" where
  "tx_predicates T =
    [(h_val T < 10, HUM_LOW, DNG_NONE, h_val T),
     (h_val T \<ge> 85, HUM_HIGH, DNG_LOW, h_val T),
     (c_val T < 20, TEMP_LOW, DNG_LOW, c_val T),
     (c_val T \<ge> 40 \<and> c_val T < 100, TEMP_HIGH, DNG_HIGH, c_val T),
     (c_val T \<ge> 100, TEMP_FIRE, DNG_MAX, c_val T),
     (co2_val T \<le> 0, CO2_LOW, DNG_NONE, co2_val T),
     (co2_val T \<ge> 400 \<and> co2_val T \<le> 1600, CO2_GOOD, DNG_NONE, co2_val T),
     (co2_val T \<ge> 1800 \<and> co2_val T < 3000, CO2_HIGH, DNG_HIGH, co2_val T),
     (co2_val T \<ge> 3000, CO2_DNG, DNG_MAX, co2_val T),
     (audio_gate T = 1, LOUDNOISE, DNG_MED, audio_gate T),
     (pir_state T = 1, INTRUDER, DNG_HIGH, pir_state T)]"

definition master_predicates :: "dataStruct \<Rightarrow> predicate list" where
  "master_predicates T =
    [(h_val T < 10, HUM_LOW, DNG_NONE, h_val T),
     (h_val T \<ge> 85, HUM_HIGH, DNG_LOW, h_val T),
     (c_val T < 20, TEMP_LOW, DNG_LOW, c_val T),
     (c_val T > 40, TEMP_HIGH, DNG_HIGH, c_val T),
     (c_val T > 100, TEMP_FIRE, DNG_MAX, c_val T),
     (co2_val T \<le> 0, CO2_LOW, DNG_NONE, co2_val T),
     (co2_val T \<ge> 400 \<and> co2_val T < 2000, CO2_GOOD, DNG_NONE, co2_val T),
     (co2_val T \<ge> 2000 \<and> co2_val T < 3000, CO2_HIGH, DNG_HIGH, co2_val T),
     (co2_val T \<ge> 3000, CO2_DNG, DNG_MAX, co2_val T),
     (pir_state T = 1, INTRUDER, DNG_HIGH, pir_state T),
     (audio_gate T = 1, LOUDNOISE, DNG_MED, audio_gate T)]"

fun run_blocks :: "int option \<Rightarrow> predicate list \<Rightarrow> triage_vars \<Rightarrow> triage_vars" where
  "run_blocks rn [] v = v"
| "run_blocks rn ((c, a, d, x) # ps) v =
     run_blocks rn ps (if c then alarm_block a d rn x v else v)"

definition fired :: "predicate list \<Rightarrow> (Alarm_type \<times> Dng_level) list" where
  "fired ps = map (\<lambda>(c, a, d, x). (a, d)) (filter fst ps)"

text \<open>
  What a triage run leaves behind: the pair stored in the record's ping, whose alarm is
  \<open>tx_alarm\<close> on the TX node and \<open>master_alarm\<close> on the Master, and the alarms of the
  lines it printed (the alarms raised by the run, \<open>tx_alarms\<close> and \<open>master_alarms\<close>).
\<close>

definition triage_pair :: "dataStruct \<Rightarrow> Alarm_type \<times> Dng_level" where
  "triage_pair T = (alm_cmd (ping T), dng_cmd (ping T))"

definition candidates :: "serial_line list \<Rightarrow> (Alarm_type \<times> Dng_level) list" where
  "candidates ls = map (\<lambda>l. (line_alarm l, line_danger l)) ls"

definition tx_alarms :: "tx_node \<Rightarrow> Alarm_type set" where
  "tx_alarms s = line_alarm ` set (fst (triage_data s))"

definition master_alarms :: "master_node \<Rightarrow> Alarm_type set" where
  "master_alarms m = line_alarm ` set (fst (triage_msg m))"

definition tx_alarm :: "tx_node \<Rightarrow> Alarm_type" where
  "tx_alarm s = fst (triage_pair (SentMessage (snd (triage_data s))))"

definition master_alarm :: "master_node \<Rightarrow> Alarm_type" where
  "master_alarm m = fst (triage_pair (ReceivedMessage (snd (triage_msg m))))"

text \<open>
  A sensor is calm in a reading when none of its threshold predicates holds.  The
  temperature band differs between the two routines; the other three are the same on
  both.
\<close>

definition calm_humidity :: "dataStruct \<Rightarrow> bool" where
  "calm_humidity T = (10 \<le> h_val T \<and> h_val T < 85)"

definition calm_temperature_tx :: "dataStruct \<Rightarrow> bool" where
  "calm_temperature_tx T = (20 \<le> c_val T \<and> c_val T < 40)"

definition calm_temperature_master :: "dataStruct \<Rightarrow> bool" where
  "calm_temperature_master T = (20 \<le> c_val T \<and> c_val T \<le> 40)"

definition calm_co2 :: "dataStruct \<Rightarrow> bool" where
  "calm_co2 T = (0 < co2_val T \<and> co2_val T < 400)"

text \<open>
  On the Master \<open>calm_co2\<close> is exactly the readings at which no CO2 predicate holds.
  The TX node has a second such band, between its good band and its high band.
\<close>

definition no_co2_alarm_tx :: "dataStruct \<Rightarrow> bool" where
  "no_co2_alarm_tx T =
    (0 < co2_val T \<and> co2_val T < 400 \<or> 1600 < co2_val T \<and> co2_val T < 1800)"

definition calm_motion_audio :: "dataStruct \<Rightarrow> bool" where
  "calm_motion_audio T = (pir_state T \<noteq> 1 \<and> audio_gate T \<noteq> 1)"

subsection \<open>The node's identity and the negotiator's guard\<close>

text \<open>
  The TX node's identity is the triple of globals \<^verbatim>\<open>radNum\<close>, \<^verbatim>\<open>chNum\<close>, \<^verbatim>\<open>pwrNum\<close>.
  \<open>in_sync\<close> says that the ping of the outgoing record carries this identity, as it does
  right after a \<^verbatim>\<open>pack_sent_msg\<close>.  \<open>guard_matches\<close> is the guard of the specification,
  a received ping against the node's identity, and \<open>command_effect\<close> is the
  specification's table of what each command kind does to the identity.
  \<open>requested_pa\<close> is the power level a call of \<^verbatim>\<open>setPowerLevel\<close> asks the driver for:
  none when the value is not one of 0 to 3.
\<close>

definition node_identity :: "tx_node \<Rightarrow> int \<times> int \<times> PA_type" where
  "node_identity s = (radNum s, chNum s, pwrNum s)"

definition in_sync :: "tx_node \<Rightarrow> bool" where
  "in_sync s = (r_cmd (ping (SentMessage s)) = radNum s \<and>
                ch_cmd (ping (SentMessage s)) = chNum s \<and>
                pa_cmd (ping (SentMessage s)) = pwrNum s)"

definition guard_matches :: "pingCmd \<Rightarrow> tx_node \<Rightarrow> bool" where
  "guard_matches p s = (ch_cmd p = chNum s \<and> tar_cmd p = radNum s)"

definition command_effect ::
  "pingCmd \<Rightarrow> int \<times> int \<times> PA_type \<Rightarrow> int \<times> int \<times> PA_type" where
  "command_effect p i =
    (case i of (rad, ch, pwr) \<Rightarrow>
      (if my_cmd p = chan_chg then (rad, ch_cmd p, pwr)
       else if my_cmd p = rad_chg then (r_cmd p, ch, pwr)
       else if my_cmd p = pa_chg then (rad, ch, pa_cmd p)
       else if my_cmd p = all_chg then (r_cmd p, ch_cmd p, pa_cmd p)
       else (rad, ch, pwr)))"

definition requested_pa :: "PA_type \<Rightarrow> rf24_pa_dbm_e option" where
  "requested_pa pwr =
    (if pwr = PA_MIN then Some RF24_PA_MIN
     else if pwr = PA_LOW then Some RF24_PA_LOW
     else if pwr = PA_HIGH then Some RF24_PA_HIGH
     else if pwr = PA_MAX then Some RF24_PA_MAX
     else None)"

subsection \<open>Concrete nodes, readings and pings\<close>

text \<open>
  \<open>tx_booted\<close> is the TX node when its start-up routine has run: radio 5 on channel 81,
  nothing transmitted yet.  \<open>node5\<close> is that node once it has packed an outgoing record.
  \<open>node3\<close> is \<open>node5\<close> after the TX console command \<^verbatim>\<open>'3'\<close>
  (\<^verbatim>\<open>setupTXRadio(3, 81, PA_MIN)\<close>): radio 3 on channel 81, with an outgoing record that
  still says radio 5.
\<close>

definition tx_booted :: tx_node where
  "tx_booted = tx_setup tx_power_on"

definition node5 :: tx_node where
  "node5 = pack_sent_msg tx_booted"

definition node3 :: tx_node where
  "node3 = setupTXRadio 3 81 PA_MIN node5"

text \<open>
  Pings as the Master's console commands build them: \<open>ping_rad_5_to_3\<close> is
  \<^verbatim>\<open>send_ping_cmd(rad_chg, 81, 3, PA_MIN, 5)\<close>, \<open>ping_rad_3_to_4\<close> is
  \<^verbatim>\<open>send_ping_cmd(rad_chg, 81, 4, PA_MIN, 3)\<close>, \<open>ping_pa_max_5\<close> is
  \<^verbatim>\<open>send_ping_cmd(pa_chg, 81, 5, PA_MAX, 5)\<close> and \<open>ping_check_2\<close> is
  \<^verbatim>\<open>send_ping_cmd(nada, 81, 2, PA_MIN, 2)\<close>.  \<open>ping_all_zero\<close> is a ping for channel 0
  and target 0 that asks for a change of everything, and \<open>ping_pa_7\<close> is a ping for
  radio 5 on channel 81 whose power field holds 7, a value outside the enumeration.
\<close>

definition ping_rad_5_to_3 :: pingCmd where
  "ping_rad_5_to_3 = \<lparr>my_cmd = rad_chg, ch_cmd = 81, r_cmd = 3, pa_cmd = PA_MIN, tar_cmd = 5,
     alm_cmd = ALM_NONE, dng_cmd = DNG_NONE\<rparr>"

definition ping_rad_3_to_4 :: pingCmd where
  "ping_rad_3_to_4 = \<lparr>my_cmd = rad_chg, ch_cmd = 81, r_cmd = 4, pa_cmd = PA_MIN, tar_cmd = 3,
     alm_cmd = ALM_NONE, dng_cmd = DNG_NONE\<rparr>"

definition ping_pa_max_5 :: pingCmd where
  "ping_pa_max_5 = \<lparr>my_cmd = pa_chg, ch_cmd = 81, r_cmd = 5, pa_cmd = PA_MAX, tar_cmd = 5,
     alm_cmd = ALM_NONE, dng_cmd = DNG_NONE\<rparr>"

definition ping_check_2 :: pingCmd where
  "ping_check_2 = \<lparr>my_cmd = nada, ch_cmd = 81, r_cmd = 2, pa_cmd = PA_MIN, tar_cmd = 2,
     alm_cmd = ALM_NONE, dng_cmd = DNG_NONE\<rparr>"

definition ping_all_zero :: pingCmd where
  "ping_all_zero = \<lparr>my_cmd = all_chg, ch_cmd = 0, r_cmd = 3, pa_cmd = PA_MAX, tar_cmd = 0,
     alm_cmd = ALM_NONE, dng_cmd = DNG_NONE\<rparr>"

definition ping_pa_7 :: pingCmd where
  "ping_pa_7 = \<lparr>my_cmd = pa_chg, ch_cmd = 81, r_cmd = 5, pa_cmd = 7, tar_cmd = 5,
     alm_cmd = ALM_NONE, dng_cmd = DNG_NONE\<rparr>"

text \<open>Readings: humidity 50, then temperature, CO2, motion and audio as named.\<close>

definition reading :: "int \<Rightarrow> int \<Rightarrow> int \<Rightarrow> int \<Rightarrow> dataStruct" where
  "reading t co2 pir gate = zero_data\<lparr>co2_val := co2, h_val := 50, c_val := t,
     pir_state := pir, audio_gate := gate\<rparr>"

definition tx_with :: "dataStruct \<Rightarrow> tx_node" where
  "tx_with T = tx_power_on\<lparr>SentMessage := T\<rparr>"

definition master_with :: "dataStruct \<Rightarrow> master_node" where
  "master_with T = master_power_on\<lparr>ReceivedMessage := T\<rparr>"

section \<open>Properties of the alarm triage\<close>

subsection \<open>The routines run their tables\<close>

lemma triage_data_checks_run: "triage_data_checks T v = run_blocks None (tx_predicates T) v"
  unfolding triage_data_checks_def tx_predicates_def run_blocks.simps Let_def ..

lemma triage_msg_checks_run:
  "triage_msg_checks T v = run_blocks (Some (msg_radNum T)) (master_predicates T) v"
  unfolding triage_msg_checks_def master_predicates_def run_blocks.simps Let_def ..

lemma printed_run_blocks:
  "candidates (printed (run_blocks rn ps v)) = candidates (printed v) @ fired ps"
  by (induction ps arbitrary: v) (auto simp: candidates_def fired_def alarm_block_def Let_def)

lemma tx_lines: "candidates (fst (triage_data s)) = fired (tx_predicates (SentMessage s))"
  by (simp add: triage_data_def Let_def triage_data_checks_run printed_run_blocks)
     (simp add: candidates_def)

lemma master_lines:
  "candidates (fst (triage_msg m)) = fired (master_predicates (ReceivedMessage m))"
  by (simp add: triage_msg_def Let_def triage_msg_checks_run printed_run_blocks)
     (simp add: candidates_def)

subsection \<open>The running maxima\<close>

lemma alarm_val_inj: "alarm_val a = alarm_val b \<Longrightarrow> a = b"
  by (cases a; cases b; simp)

lemma dng_val_inj: "dng_val a = dng_val b \<Longrightarrow> a = b"
  by (cases a; cases b; simp)

lemma alarm_val_nonneg: "0 \<le> alarm_val a"
  by (cases a) simp_all

lemma dng_val_nonneg: "0 \<le> dng_val d"
  by (cases d) simp_all

lemma alarm_block_maxima:
  "alarm_val (alm_temp (alarm_block a d rn x v)) = max (alarm_val (alm_temp v)) (alarm_val a)"
  "dng_val (dng_temp (alarm_block a d rn x v)) = max (dng_val (dng_temp v)) (dng_val d)"
  by (simp_all add: alarm_block_def Let_def max_def)

lemma Max_insert_max:
  fixes S :: "int set"
  assumes "finite S"
  shows "Max (insert (max x y) S) = Max (insert x (insert y S))"
proof (cases "S = {}")
  case True
  then show ?thesis by simp
next
  case False
  with assms show ?thesis by (simp add: max.assoc)
qed

lemma alm_temp_run_blocks:
  "alarm_val (alm_temp (run_blocks rn ps v)) =
     Max (insert (alarm_val (alm_temp v)) (alarm_val ` fst ` set (fired ps)))"
proof (induction ps arbitrary: v)
  case Nil
  then show ?case by (simp add: fired_def)
next
  case (Cons p ps)
  obtain c a d x where p: "p = (c, a, d, x)" by (cases p)
  show ?case
  proof (cases c)
    case False
    with p Cons show ?thesis by (simp add: fired_def)
  next
    case True
    have "alarm_val (alm_temp (run_blocks rn (p # ps) v)) =
        Max (insert (max (alarm_val (alm_temp v)) (alarm_val a))
               (alarm_val ` fst ` set (fired ps)))"
      using p True Cons.IH by (simp add: alarm_block_maxima)
    also have "\<dots> = Max (insert (alarm_val (alm_temp v))
                        (insert (alarm_val a) (alarm_val ` fst ` set (fired ps))))"
      by (rule Max_insert_max) simp
    finally show ?thesis using p True by (simp add: fired_def)
  qed
qed

lemma dng_temp_run_blocks:
  "dng_val (dng_temp (run_blocks rn ps v)) =
     Max (insert (dng_val (dng_temp v)) (dng_val ` snd ` set (fired ps)))"
proof (induction ps arbitrary: v)
  case Nil
  then show ?case by (simp add: fired_def)
next
  case (Cons p ps)
  obtain c a d x where p: "p = (c, a, d, x)" by (cases p)
  show ?case
  proof (cases c)
    case False
    with p Cons show ?thesis by (simp add: fired_def)
  next
    case True
    have "dng_val (dng_temp (run_blocks rn (p # ps) v)) =
        Max (insert (max (dng_val (dng_temp v)) (dng_val d))
               (dng_val ` snd ` set (fired ps)))"
      using p True Cons.IH by (simp add: alarm_block_maxima)
    also have "\<dots> = Max (insert (dng_val (dng_temp v))
                        (insert (dng_val d) (dng_val ` snd ` set (fired ps))))"
      by (rule Max_insert_max) simp
    finally show ?thesis using p True by (simp add: fired_def)
  qed
qed

lemma Max_insert_zero:
  fixes S :: "int set"
  assumes "finite S" and "S \<noteq> {}" and "\<And>x. x \<in> S \<Longrightarrow> 0 \<le> x"
  shows "Max (insert 0 S) = Max S"
proof -
  have "0 \<le> Max S" using assms by (meson Max_in)
  with assms show ?thesis by (simp add: max_def)
qed

lemma highest_of_fired:
  assumes "alarm_val a = Max (insert 0 (alarm_val ` fst ` set cs))"
      and "dng_val d = Max (insert 0 (dng_val ` snd ` set cs))"
  shows "if cs = [] then a = ALM_NONE \<and> d = DNG_NONE
         else alarm_val a = Max (alarm_val ` fst ` set cs) \<and>
              dng_val d = Max (dng_val ` snd ` set cs)"
proof (cases "cs = []")
  case True
  with assms have "alarm_val a = alarm_val ALM_NONE" by simp
  then have a: "a = ALM_NONE" by (rule alarm_val_inj)
  from True assms have "dng_val d = dng_val DNG_NONE" by simp
  then have d: "d = DNG_NONE" by (rule dng_val_inj)
  from True a d show ?thesis by simp
next
  case False
  have "Max (insert 0 (alarm_val ` fst ` set cs)) = Max (alarm_val ` fst ` set cs)"
    using False by (intro Max_insert_zero) (auto simp: alarm_val_nonneg)
  moreover have "Max (insert 0 (dng_val ` snd ` set cs)) = Max (dng_val ` snd ` set cs)"
    using False by (intro Max_insert_zero) (auto simp: dng_val_nonneg)
  ultimately show ?thesis using False assms by simp
qed

lemma tx_pair_max:
  "alarm_val (fst (triage_pair (SentMessage (snd (triage_data s))))) =
     Max (insert 0 (alarm_val ` fst ` set (fired (tx_predicates (SentMessage s)))))"
  "dng_val (snd (triage_pair (SentMessage (snd (triage_data s))))) =
     Max (insert 0 (dng_val ` snd ` set (fired (tx_predicates (SentMessage s)))))"
  by (simp_all add: triage_pair_def triage_data_def Let_def triage_data_checks_run
        alm_temp_run_blocks dng_temp_run_blocks)

lemma master_pair_max:
  "alarm_val (fst (triage_pair (ReceivedMessage (snd (triage_msg m))))) =
     Max (insert 0 (alarm_val ` fst ` set (fired (master_predicates (ReceivedMessage m)))))"
  "dng_val (snd (triage_pair (ReceivedMessage (snd (triage_msg m))))) =
     Max (insert 0 (dng_val ` snd ` set (fired (master_predicates (ReceivedMessage m)))))"
  by (simp_all add: triage_pair_def triage_msg_def Let_def triage_msg_checks_run
        alm_temp_run_blocks dng_temp_run_blocks)

lemma triage_globals:
  "(almNum (snd (triage_data s)), dngNum (snd (triage_data s))) =
     triage_pair (SentMessage (snd (triage_data s)))"
  "(alm_msg (snd (triage_msg m)), dng_msg (snd (triage_msg m))) =
     triage_pair (ReceivedMessage (snd (triage_msg m)))"
  by (simp_all add: triage_pair_def triage_data_def triage_msg_def Let_def)

subsection \<open>Which alarms a run raises\<close>

lemma fired_alarm_iff:
  "a \<in> fst ` set (fired ps) \<longleftrightarrow> (\<exists>p \<in> set ps. fst p \<and> fst (snd p) = a)"
  by (force simp: fired_def)

lemma line_alarm_candidates: "line_alarm ` set ls = fst ` set (candidates ls)"
  by (simp add: candidates_def image_image)

lemma tx_alarm_iff:
  "a \<in> tx_alarms s \<longleftrightarrow> (\<exists>p \<in> set (tx_predicates (SentMessage s)). fst p \<and> fst (snd p) = a)"
  by (simp only: tx_alarms_def line_alarm_candidates tx_lines fired_alarm_iff)

lemma master_alarm_iff:
  "a \<in> master_alarms m \<longleftrightarrow>
     (\<exists>p \<in> set (master_predicates (ReceivedMessage m)). fst p \<and> fst (snd p) = a)"
  by (simp only: master_alarms_def line_alarm_candidates master_lines fired_alarm_iff)

lemmas triage_eval = triage_data_def triage_msg_def triage_data_checks_def
  triage_msg_checks_def alarm_block_def triage_pair_def candidates_def fired_def
  tx_predicates_def master_predicates_def tx_alarms_def master_alarms_def
  reading_def tx_with_def master_with_def tx_power_on_def master_power_on_def
  zero_data_def zero_ping_def Let_def

text \<open>
  Claim C1.  For every reading record, the triage routine of the TX node
  (\<^verbatim>\<open>triage_data\<close>) and that of the Master (\<^verbatim>\<open>triage_msg\<close>) print one line per
  threshold predicate that holds, and store in the record's ping, and in their globals,
  the pair made of the numerically highest alarm and, separately, the numerically highest
  danger level among the candidates of those predicates; when no predicate holds the
  pair is \<open>(ALM_NONE, DNG_NONE)\<close>.  The numeric values of distinct constants differ
  (\<open>alarm_val_inj\<close>, \<open>dng_val_inj\<close>), so on a tie \<^verbatim>\<open>>=\<close> replaces a value by itself.
\<close>

theorem triage_pairwise_maximum:
  "candidates (fst (triage_data s)) = fired (tx_predicates (SentMessage s)) \<and>
   (if fired (tx_predicates (SentMessage s)) = []
    then triage_pair (SentMessage (snd (triage_data s))) = (ALM_NONE, DNG_NONE)
    else alarm_val (fst (triage_pair (SentMessage (snd (triage_data s))))) =
           Max (alarm_val ` fst ` set (fired (tx_predicates (SentMessage s)))) \<and>
         dng_val (snd (triage_pair (SentMessage (snd (triage_data s))))) =
           Max (dng_val ` snd ` set (fired (tx_predicates (SentMessage s))))) \<and>
   (almNum (snd (triage_data s)), dngNum (snd (triage_data s))) =
     triage_pair (SentMessage (snd (triage_data s))) \<and>
   candidates (fst (triage_msg m)) = fired (master_predicates (ReceivedMessage m)) \<and>
   (if fired (master_predicates (ReceivedMessage m)) = []
    then triage_pair (ReceivedMessage (snd (triage_msg m))) = (ALM_NONE, DNG_NONE)
    else alarm_val (fst (triage_pair (ReceivedMessage (snd (triage_msg m))))) =
           Max (alarm_val ` fst ` set (fired (master_predicates (ReceivedMessage m)))) \<and>
         dng_val (snd (triage_pair (ReceivedMessage (snd (triage_msg m))))) =
           Max (dng_val ` snd ` set (fired (master_predicates (ReceivedMessage m))))) \<and>
   (alm_msg (snd (triage_msg m)), dng_msg (snd (triage_msg m))) =
     triage_pair (ReceivedMessage (snd (triage_msg m)))"
proof -
  have tx: "if fired (tx_predicates (SentMessage s)) = []
    then triage_pair (SentMessage (snd (triage_data s))) = (ALM_NONE, DNG_NONE)
    else alarm_val (fst (triage_pair (SentMessage (snd (triage_data s))))) =
           Max (alarm_val ` fst ` set (fired (tx_predicates (SentMessage s)))) \<and>
         dng_val (snd (triage_pair (SentMessage (snd (triage_data s))))) =
           Max (dng_val ` snd ` set (fired (tx_predicates (SentMessage s))))"
    using highest_of_fired [OF tx_pair_max, of s] by (simp add: prod_eq_iff)
  have ma: "if fired (master_predicates (ReceivedMessage m)) = []
    then triage_pair (ReceivedMessage (snd (triage_msg m))) = (ALM_NONE, DNG_NONE)
    else alarm_val (fst (triage_pair (ReceivedMessage (snd (triage_msg m))))) =
           Max (alarm_val ` fst ` set (fired (master_predicates (ReceivedMessage m)))) \<and>
         dng_val (snd (triage_pair (ReceivedMessage (snd (triage_msg m))))) =
           Max (dng_val ` snd ` set (fired (master_predicates (ReceivedMessage m))))"
    using highest_of_fired [OF master_pair_max, of m] by (simp add: prod_eq_iff)
  from tx ma show ?thesis
    by (simp only: tx_lines master_lines triage_globals simp_thms)
qed

text \<open>
  The theorem at three readings: temperature 105, CO2 3200 and motion on the TX node
  give \<open>(TEMP_FIRE, DNG_MAX)\<close>; CO2 500 at temperature 25 gives \<open>(CO2_GOOD, DNG_NONE)\<close> on
  the Master; CO2 100 at temperature 25 fires nothing and gives \<open>(ALM_NONE, DNG_NONE)\<close>.
\<close>

theorem triage_pairwise_maximum_witness:
  "triage_pair (SentMessage (snd (triage_data (tx_with (reading 105 3200 1 0))))) =
     (TEMP_FIRE, DNG_MAX) \<and>
   triage_pair (ReceivedMessage (snd (triage_msg (master_with (reading 25 500 0 0))))) =
     (CO2_GOOD, DNG_NONE) \<and>
   fired (tx_predicates (SentMessage (tx_with (reading 25 100 0 0)))) = [] \<and>
   triage_pair (SentMessage (snd (triage_data (tx_with (reading 25 100 0 0))))) =
     (ALM_NONE, DNG_NONE)"
  using triage_pairwise_maximum [of "tx_with (reading 105 3200 1 0)"
          "master_with (reading 25 500 0 0)"]
        triage_pairwise_maximum [of "tx_with (reading 25 100 0 0)"
          "master_with (reading 25 500 0 0)"]
  by (simp add: triage_eval)

subsection \<open>The stored alarm\<close>

lemmas calm_defs = calm_humidity_def calm_temperature_tx_def calm_temperature_master_def
  calm_co2_def calm_motion_audio_def

text \<open>A stored alarm other than \<open>ALM_NONE\<close> was raised by the run.\<close>

lemma stored_alarm_raised:
  assumes "alarm_val a = Max (insert 0 (alarm_val ` fst ` set cs))" and "a \<noteq> ALM_NONE"
  shows "a \<in> fst ` set cs"
proof -
  let ?S = "alarm_val ` fst ` set cs"
  have "Max (insert 0 ?S) \<in> insert 0 ?S" by (rule Max_in) simp_all
  with assms(1) have "alarm_val a = 0 \<or> alarm_val a \<in> ?S" by auto
  moreover have "alarm_val a \<noteq> 0"
    using assms(2) alarm_val_inj [of a ALM_NONE] by auto
  ultimately have "alarm_val a \<in> ?S" by simp
  then obtain c where c: "c \<in> fst ` set cs" and "alarm_val a = alarm_val c" by auto
  then have "a = c" by (auto dest: alarm_val_inj)
  with c show ?thesis by simp
qed

lemma tx_alarm_raised: "tx_alarm s \<noteq> ALM_NONE \<Longrightarrow> tx_alarm s \<in> tx_alarms s"
  using stored_alarm_raised [of "tx_alarm s" "fired (tx_predicates (SentMessage s))"]
  by (simp add: tx_alarm_def tx_pair_max)
     (simp only: tx_alarms_def line_alarm_candidates tx_lines)

lemma master_alarm_raised:
  "master_alarm m \<noteq> ALM_NONE \<Longrightarrow> master_alarm m \<in> master_alarms m"
  using stored_alarm_raised [of "master_alarm m" "fired (master_predicates (ReceivedMessage m))"]
  by (simp add: master_alarm_def master_pair_max)
     (simp only: master_alarms_def line_alarm_candidates master_lines)

lemma tx_alarm_humidity_only:
  assumes "calm_temperature_tx (SentMessage s)" "calm_co2 (SentMessage s)"
    "calm_motion_audio (SentMessage s)"
  shows "tx_alarm s = (if h_val (SentMessage s) < 10 then HUM_LOW
           else if 85 \<le> h_val (SentMessage s) then HUM_HIGH else ALM_NONE)"
  using assms
  by (simp add: calm_defs tx_alarm_def triage_pair_def triage_data_def triage_data_checks_def
        alarm_block_def Let_def)

lemma master_alarm_humidity_only:
  assumes "calm_temperature_master (ReceivedMessage m)" "calm_co2 (ReceivedMessage m)"
    "calm_motion_audio (ReceivedMessage m)"
  shows "master_alarm m = (if h_val (ReceivedMessage m) < 10 then HUM_LOW
           else if 85 \<le> h_val (ReceivedMessage m) then HUM_HIGH else ALM_NONE)"
  using assms
  by (simp add: calm_defs master_alarm_def triage_pair_def triage_msg_def triage_msg_checks_def
        alarm_block_def Let_def)

lemma tx_alarm_temperature_only:
  assumes "calm_humidity (SentMessage s)" "calm_co2 (SentMessage s)"
    "calm_motion_audio (SentMessage s)"
  shows "tx_alarm s = (if c_val (SentMessage s) < 20 then TEMP_LOW
           else if c_val (SentMessage s) < 40 then ALM_NONE
           else if c_val (SentMessage s) < 100 then TEMP_HIGH else TEMP_FIRE)"
  using assms
  by (simp add: calm_defs tx_alarm_def triage_pair_def triage_data_def triage_data_checks_def
        alarm_block_def Let_def)

lemma master_alarm_temperature_only:
  assumes "calm_humidity (ReceivedMessage m)" "calm_co2 (ReceivedMessage m)"
    "calm_motion_audio (ReceivedMessage m)"
  shows "master_alarm m = (if c_val (ReceivedMessage m) < 20 then TEMP_LOW
           else if c_val (ReceivedMessage m) \<le> 40 then ALM_NONE
           else if c_val (ReceivedMessage m) \<le> 100 then TEMP_HIGH else TEMP_FIRE)"
  using assms
  by (simp add: calm_defs master_alarm_def triage_pair_def triage_msg_def triage_msg_checks_def
        alarm_block_def Let_def)

subsection \<open>Temperature\<close>

lemma temperature_raised_tx:
  "(TEMP_LOW \<in> tx_alarms s) = (c_val (SentMessage s) < 20)"
  "(TEMP_HIGH \<in> tx_alarms s) = (40 \<le> c_val (SentMessage s) \<and> c_val (SentMessage s) < 100)"
  "(TEMP_FIRE \<in> tx_alarms s) = (100 \<le> c_val (SentMessage s))"
  by (auto simp: tx_alarm_iff tx_predicates_def)

lemma temperature_raised_master:
  "(TEMP_LOW \<in> master_alarms m) = (c_val (ReceivedMessage m) < 20)"
  "(TEMP_HIGH \<in> master_alarms m) = (40 < c_val (ReceivedMessage m))"
  "(TEMP_FIRE \<in> master_alarms m) = (100 < c_val (ReceivedMessage m))"
  by (auto simp: master_alarm_iff master_predicates_def)

text \<open>
  Claim C4, as the code has it.  An alarm is raised when its threshold block runs: the
  block prints the alarm's line and offers it to the maximum; the alarm stored in the
  record is the highest one raised by any sensor (claim C1).

  On the TX node the temperature blocks are as the claim says: \<open>TEMP_LOW\<close> is raised
  exactly when the temperature is below 20, \<open>TEMP_HIGH\<close> exactly from 40 up to 99,
  \<open>TEMP_FIRE\<close> exactly from 100 on, and none of them from 20 up to 39.  The Master
  compares with \<^verbatim>\<open>>\<close>: it raises \<open>TEMP_LOW\<close> exactly below 20, \<open>TEMP_HIGH\<close> exactly above
  40 (with no upper bound) and \<open>TEMP_FIRE\<close> exactly above 100, and none of them from 20
  up to 40.

  A stored temperature alarm was raised, so its band holds.  When humidity, CO2, motion
  and audio are calm, the stored alarm is decided by the temperature alone: on the TX
  node \<open>TEMP_LOW\<close> below 20, none from 20 to 39, \<open>TEMP_HIGH\<close> from 40 to 99, \<open>TEMP_FIRE\<close>
  from 100 on; on the Master \<open>TEMP_LOW\<close> below 20, none from 20 to 40, \<open>TEMP_HIGH\<close> from
  41 to 100, \<open>TEMP_FIRE\<close> above 100.
\<close>

theorem temperature_alarms:
  "((TEMP_LOW \<in> tx_alarms s) = (c_val (SentMessage s) < 20) \<and>
    (TEMP_HIGH \<in> tx_alarms s) = (40 \<le> c_val (SentMessage s) \<and> c_val (SentMessage s) < 100) \<and>
    (TEMP_FIRE \<in> tx_alarms s) = (100 \<le> c_val (SentMessage s)) \<and>
    (TEMP_LOW \<notin> tx_alarms s \<and> TEMP_HIGH \<notin> tx_alarms s \<and> TEMP_FIRE \<notin> tx_alarms s) =
      (20 \<le> c_val (SentMessage s) \<and> c_val (SentMessage s) < 40)) \<and>
   ((TEMP_LOW \<in> master_alarms m) = (c_val (ReceivedMessage m) < 20) \<and>
    (TEMP_HIGH \<in> master_alarms m) = (40 < c_val (ReceivedMessage m)) \<and>
    (TEMP_FIRE \<in> master_alarms m) = (100 < c_val (ReceivedMessage m)) \<and>
    (TEMP_LOW \<notin> master_alarms m \<and> TEMP_HIGH \<notin> master_alarms m \<and>
       TEMP_FIRE \<notin> master_alarms m) =
      (20 \<le> c_val (ReceivedMessage m) \<and> c_val (ReceivedMessage m) \<le> 40)) \<and>
   ((tx_alarm s = TEMP_LOW \<longrightarrow> c_val (SentMessage s) < 20) \<and>
    (tx_alarm s = TEMP_HIGH \<longrightarrow> 40 \<le> c_val (SentMessage s) \<and> c_val (SentMessage s) < 100) \<and>
    (tx_alarm s = TEMP_FIRE \<longrightarrow> 100 \<le> c_val (SentMessage s)) \<and>
    (master_alarm m = TEMP_LOW \<longrightarrow> c_val (ReceivedMessage m) < 20) \<and>
    (master_alarm m = TEMP_HIGH \<longrightarrow> 40 < c_val (ReceivedMessage m)) \<and>
    (master_alarm m = TEMP_FIRE \<longrightarrow> 100 < c_val (ReceivedMessage m))) \<and>
   (calm_humidity (SentMessage s) \<and> calm_co2 (SentMessage s) \<and>
      calm_motion_audio (SentMessage s) \<longrightarrow>
    tx_alarm s = (if c_val (SentMessage s) < 20 then TEMP_LOW
                  else if c_val (SentMessage s) < 40 then ALM_NONE
                  else if c_val (SentMessage s) < 100 then TEMP_HIGH else TEMP_FIRE)) \<and>
   (calm_humidity (ReceivedMessage m) \<and> calm_co2 (ReceivedMessage m) \<and>
      calm_motion_audio (ReceivedMessage m) \<longrightarrow>
    master_alarm m = (if c_val (ReceivedMessage m) < 20 then TEMP_LOW
                      else if c_val (ReceivedMessage m) \<le> 40 then ALM_NONE
                      else if c_val (ReceivedMessage m) \<le> 100 then TEMP_HIGH else TEMP_FIRE))"
proof (intro conjI)
  show "tx_alarm s = TEMP_LOW \<longrightarrow> c_val (SentMessage s) < 20"
    "tx_alarm s = TEMP_HIGH \<longrightarrow> 40 \<le> c_val (SentMessage s) \<and> c_val (SentMessage s) < 100"
    "tx_alarm s = TEMP_FIRE \<longrightarrow> 100 \<le> c_val (SentMessage s)"
    using tx_alarm_raised [of s] temperature_raised_tx [of s] by auto
  show "master_alarm m = TEMP_LOW \<longrightarrow> c_val (ReceivedMessage m) < 20"
    "master_alarm m = TEMP_HIGH \<longrightarrow> 40 < c_val (ReceivedMessage m)"
    "master_alarm m = TEMP_FIRE \<longrightarrow> 100 < c_val (ReceivedMessage m)"
    using master_alarm_raised [of m] temperature_raised_master [of m] by auto
qed (auto simp: temperature_raised_tx temperature_raised_master
       tx_alarm_temperature_only master_alarm_temperature_only)

text \<open>
  The theorem at the boundaries 40 and 100 on the TX node and at 41 and 101 on the
  Master, with the other sensors calm.
\<close>

theorem temperature_alarms_witness:
  "calm_humidity (reading 40 100 0 0) \<and> calm_co2 (reading 40 100 0 0) \<and>
   calm_motion_audio (reading 40 100 0 0) \<and>
   TEMP_HIGH \<in> tx_alarms (tx_with (reading 40 100 0 0)) \<and>
   tx_alarm (tx_with (reading 40 100 0 0)) = TEMP_HIGH \<and>
   TEMP_FIRE \<in> tx_alarms (tx_with (reading 100 100 0 0)) \<and>
   TEMP_HIGH \<notin> tx_alarms (tx_with (reading 100 100 0 0)) \<and>
   tx_alarm (tx_with (reading 100 100 0 0)) = TEMP_FIRE \<and>
   tx_alarm (tx_with (reading 19 100 0 0)) = TEMP_LOW \<and>
   TEMP_HIGH \<in> master_alarms (master_with (reading 41 100 0 0)) \<and>
   master_alarm (master_with (reading 41 100 0 0)) = TEMP_HIGH \<and>
   TEMP_FIRE \<in> master_alarms (master_with (reading 101 100 0 0)) \<and>
   master_alarm (master_with (reading 101 100 0 0)) = TEMP_FIRE \<and>
   master_alarm (master_with (reading 19 100 0 0)) = TEMP_LOW"
  using temperature_alarms [of "tx_with (reading 40 100 0 0)" "master_with (reading 41 100 0 0)"]
        temperature_alarms [of "tx_with (reading 100 100 0 0)" "master_with (reading 101 100 0 0)"]
        temperature_alarms [of "tx_with (reading 19 100 0 0)" "master_with (reading 19 100 0 0)"]
  by (simp add: tx_with_def master_with_def reading_def calm_defs)

text \<open>
  Claim C4 as stated fails on the Master: at temperature 40, with the other sensors
  calm, the Master raises no temperature alarm and stores \<open>(ALM_NONE, DNG_NONE)\<close>, where
  the claim has \<open>TEMP_HIGH\<close>; at temperature 100 it does not raise \<open>TEMP_FIRE\<close> and stores
  \<open>(TEMP_HIGH, DNG_HIGH)\<close>.
\<close>

theorem master_temperature_counterexample:
  "c_val (ReceivedMessage (master_with (reading 40 100 0 0))) = 40 \<and>
   TEMP_HIGH \<notin> master_alarms (master_with (reading 40 100 0 0)) \<and>
   triage_pair (ReceivedMessage (snd (triage_msg (master_with (reading 40 100 0 0))))) =
     (ALM_NONE, DNG_NONE) \<and>
   c_val (ReceivedMessage (master_with (reading 100 100 0 0))) = 100 \<and>
   TEMP_FIRE \<notin> master_alarms (master_with (reading 100 100 0 0)) \<and>
   triage_pair (ReceivedMessage (snd (triage_msg (master_with (reading 100 100 0 0))))) =
     (TEMP_HIGH, DNG_HIGH)"
  by (simp add: triage_eval)

subsection \<open>CO2\<close>

text \<open>
  Claim C5.  The TX node raises \<open>CO2_GOOD\<close> exactly for CO2 from 400 to 1600 and
  \<open>CO2_HIGH\<close> exactly from 1800 to 2999, so at 1700 it raises neither; the Master raises
  \<open>CO2_GOOD\<close> exactly from 400 to 1999, so at 1700 it raises \<open>CO2_GOOD\<close>.
\<close>

theorem co2_1700_by_role:
  "(CO2_GOOD \<in> tx_alarms s) =
     (400 \<le> co2_val (SentMessage s) \<and> co2_val (SentMessage s) \<le> 1600) \<and>
   (CO2_HIGH \<in> tx_alarms s) =
     (1800 \<le> co2_val (SentMessage s) \<and> co2_val (SentMessage s) < 3000) \<and>
   (CO2_GOOD \<in> master_alarms m) =
     (400 \<le> co2_val (ReceivedMessage m) \<and> co2_val (ReceivedMessage m) < 2000) \<and>
   (co2_val (SentMessage s) = 1700 \<longrightarrow> CO2_GOOD \<notin> tx_alarms s \<and> CO2_HIGH \<notin> tx_alarms s) \<and>
   (co2_val (ReceivedMessage m) = 1700 \<longrightarrow> CO2_GOOD \<in> master_alarms m)"
  by (auto simp: tx_alarm_iff master_alarm_iff tx_predicates_def master_predicates_def)

text \<open>
  The theorem at CO2 1700 with temperature 25: the TX node raises nothing at all, the
  Master stores \<open>CO2_GOOD\<close>.
\<close>

theorem co2_1700_by_role_witness:
  "co2_val (SentMessage (tx_with (reading 25 1700 0 0))) = 1700 \<and>
   CO2_GOOD \<notin> tx_alarms (tx_with (reading 25 1700 0 0)) \<and>
   CO2_HIGH \<notin> tx_alarms (tx_with (reading 25 1700 0 0)) \<and>
   co2_val (ReceivedMessage (master_with (reading 25 1700 0 0))) = 1700 \<and>
   CO2_GOOD \<in> master_alarms (master_with (reading 25 1700 0 0))"
  using co2_1700_by_role [of "tx_with (reading 25 1700 0 0)" "master_with (reading 25 1700 0 0)"]
  by (simp add: tx_with_def master_with_def reading_def)

subsection \<open>Humidity\<close>

lemma humidity_raised_tx:
  "(HUM_LOW \<in> tx_alarms s) = (h_val (SentMessage s) < 10)"
  "(HUM_HIGH \<in> tx_alarms s) = (85 \<le> h_val (SentMessage s))"
  by (auto simp: tx_alarm_iff tx_predicates_def)

lemma humidity_raised_master:
  "(HUM_LOW \<in> master_alarms m) = (h_val (ReceivedMessage m) < 10)"
  "(HUM_HIGH \<in> master_alarms m) = (85 \<le> h_val (ReceivedMessage m))"
  by (auto simp: master_alarm_iff master_predicates_def)

text \<open>No raised alarm is numerically above the stored one.\<close>

lemma tx_alarm_upper: "a \<in> tx_alarms s \<Longrightarrow> alarm_val a \<le> alarm_val (tx_alarm s)"
proof -
  assume "a \<in> tx_alarms s"
  then have "a \<in> fst ` set (fired (tx_predicates (SentMessage s)))"
    by (simp only: tx_alarms_def line_alarm_candidates tx_lines)
  then have "alarm_val a \<le>
      Max (insert 0 (alarm_val ` fst ` set (fired (tx_predicates (SentMessage s)))))"
    by (intro Max_ge) auto
  then show ?thesis by (simp add: tx_alarm_def tx_pair_max)
qed

lemma master_alarm_upper:
  "a \<in> master_alarms m \<Longrightarrow> alarm_val a \<le> alarm_val (master_alarm m)"
proof -
  assume "a \<in> master_alarms m"
  then have "a \<in> fst ` set (fired (master_predicates (ReceivedMessage m)))"
    by (simp only: master_alarms_def line_alarm_candidates master_lines)
  then have "alarm_val a \<le>
      Max (insert 0 (alarm_val ` fst ` set (fired (master_predicates (ReceivedMessage m)))))"
    by (intro Max_ge) auto
  then show ?thesis by (simp add: master_alarm_def master_pair_max)
qed

text \<open>
  When the stored alarm is a humidity alarm or none, no temperature, CO2, motion or
  audio predicate held: each of their alarms is numerically above \<open>HUM_HIGH\<close>.
\<close>

lemma tx_others_calm:
  assumes "alarm_val (tx_alarm s) \<le> 2"
  shows "calm_temperature_tx (SentMessage s) \<and> no_co2_alarm_tx (SentMessage s) \<and>
         calm_motion_audio (SentMessage s)"
proof -
  have n: "a \<notin> tx_alarms s" if "2 < alarm_val a" for a
    using that assms tx_alarm_upper [of a s] by auto
  have "TEMP_LOW \<notin> tx_alarms s" "TEMP_HIGH \<notin> tx_alarms s" "TEMP_FIRE \<notin> tx_alarms s"
    "CO2_LOW \<notin> tx_alarms s" "CO2_GOOD \<notin> tx_alarms s" "CO2_HIGH \<notin> tx_alarms s"
    "CO2_DNG \<notin> tx_alarms s" "LOUDNOISE \<notin> tx_alarms s" "INTRUDER \<notin> tx_alarms s"
    by (simp_all add: n)
  then show ?thesis
    by (auto simp: tx_alarm_iff tx_predicates_def calm_defs no_co2_alarm_tx_def)
qed

lemma master_others_calm:
  assumes "alarm_val (master_alarm m) \<le> 2"
  shows "calm_temperature_master (ReceivedMessage m) \<and> calm_co2 (ReceivedMessage m) \<and>
         calm_motion_audio (ReceivedMessage m)"
proof -
  have n: "a \<notin> master_alarms m" if "2 < alarm_val a" for a
    using that assms master_alarm_upper [of a m] by auto
  have "TEMP_LOW \<notin> master_alarms m" "TEMP_HIGH \<notin> master_alarms m"
    "TEMP_FIRE \<notin> master_alarms m" "CO2_LOW \<notin> master_alarms m"
    "CO2_GOOD \<notin> master_alarms m" "CO2_HIGH \<notin> master_alarms m"
    "CO2_DNG \<notin> master_alarms m" "LOUDNOISE \<notin> master_alarms m"
    "INTRUDER \<notin> master_alarms m"
    by (simp_all add: n)
  then show ?thesis
    by (auto simp: master_alarm_iff master_predicates_def calm_defs)
qed

lemma tx_alarm_humidity_alone:
  assumes "calm_temperature_tx (SentMessage s)" "no_co2_alarm_tx (SentMessage s)"
    "calm_motion_audio (SentMessage s)"
  shows "tx_alarm s = (if h_val (SentMessage s) < 10 then HUM_LOW
           else if 85 \<le> h_val (SentMessage s) then HUM_HIGH else ALM_NONE)"
proof -
  from assms(2) have "calm_co2 (SentMessage s) \<or>
      1600 < co2_val (SentMessage s) \<and> co2_val (SentMessage s) < 1800"
    by (simp add: no_co2_alarm_tx_def calm_co2_def)
  then show ?thesis
  proof
    assume "calm_co2 (SentMessage s)"
    with assms show ?thesis by (simp add: tx_alarm_humidity_only)
  next
    assume "1600 < co2_val (SentMessage s) \<and> co2_val (SentMessage s) < 1800"
    with assms(1,3) show ?thesis
      by (simp add: calm_defs tx_alarm_def triage_pair_def triage_data_def
            triage_data_checks_def alarm_block_def Let_def)
  qed
qed

lemma tx_humidity_stored:
  "(tx_alarm s = HUM_LOW) =
     (h_val (SentMessage s) < 10 \<and> calm_temperature_tx (SentMessage s) \<and>
      no_co2_alarm_tx (SentMessage s) \<and> calm_motion_audio (SentMessage s))"
  "(tx_alarm s = HUM_HIGH) =
     (85 \<le> h_val (SentMessage s) \<and> calm_temperature_tx (SentMessage s) \<and>
      no_co2_alarm_tx (SentMessage s) \<and> calm_motion_audio (SentMessage s))"
proof -
  show "(tx_alarm s = HUM_LOW) =
     (h_val (SentMessage s) < 10 \<and> calm_temperature_tx (SentMessage s) \<and>
      no_co2_alarm_tx (SentMessage s) \<and> calm_motion_audio (SentMessage s))"
  proof
    assume a: "tx_alarm s = HUM_LOW"
    then have "HUM_LOW \<in> tx_alarms s" using tx_alarm_raised [of s] by simp
    moreover from a have "alarm_val (tx_alarm s) \<le> 2" by simp
    ultimately show "h_val (SentMessage s) < 10 \<and> calm_temperature_tx (SentMessage s) \<and>
      no_co2_alarm_tx (SentMessage s) \<and> calm_motion_audio (SentMessage s)"
      using tx_others_calm [of s] by (simp add: humidity_raised_tx)
  next
    assume "h_val (SentMessage s) < 10 \<and> calm_temperature_tx (SentMessage s) \<and>
      no_co2_alarm_tx (SentMessage s) \<and> calm_motion_audio (SentMessage s)"
    then show "tx_alarm s = HUM_LOW" by (simp add: tx_alarm_humidity_alone)
  qed
  show "(tx_alarm s = HUM_HIGH) =
     (85 \<le> h_val (SentMessage s) \<and> calm_temperature_tx (SentMessage s) \<and>
      no_co2_alarm_tx (SentMessage s) \<and> calm_motion_audio (SentMessage s))"
  proof
    assume a: "tx_alarm s = HUM_HIGH"
    then have "HUM_HIGH \<in> tx_alarms s" using tx_alarm_raised [of s] by simp
    moreover from a have "alarm_val (tx_alarm s) \<le> 2" by simp
    ultimately show "85 \<le> h_val (SentMessage s) \<and> calm_temperature_tx (SentMessage s) \<and>
      no_co2_alarm_tx (SentMessage s) \<and> calm_motion_audio (SentMessage s)"
      using tx_others_calm [of s] by (simp add: humidity_raised_tx)
  next
    assume "85 \<le> h_val (SentMessage s) \<and> calm_temperature_tx (SentMessage s) \<and>
      no_co2_alarm_tx (SentMessage s) \<and> calm_motion_audio (SentMessage s)"
    then show "tx_alarm s = HUM_HIGH" by (simp add: tx_alarm_humidity_alone)
  qed
qed

lemma master_humidity_stored:
  "(master_alarm m = HUM_LOW) =
     (h_val (ReceivedMessage m) < 10 \<and> calm_temperature_master (ReceivedMessage m) \<and>
      calm_co2 (ReceivedMessage m) \<and> calm_motion_audio (ReceivedMessage m))"
  "(master_alarm m = HUM_HIGH) =
     (85 \<le> h_val (ReceivedMessage m) \<and> calm_temperature_master (ReceivedMessage m) \<and>
      calm_co2 (ReceivedMessage m) \<and> calm_motion_audio (ReceivedMessage m))"
proof -
  show "(master_alarm m = HUM_LOW) =
     (h_val (ReceivedMessage m) < 10 \<and> calm_temperature_master (ReceivedMessage m) \<and>
      calm_co2 (ReceivedMessage m) \<and> calm_motion_audio (ReceivedMessage m))"
  proof
    assume a: "master_alarm m = HUM_LOW"
    then have "HUM_LOW \<in> master_alarms m" using master_alarm_raised [of m] by simp
    moreover from a have "alarm_val (master_alarm m) \<le> 2" by simp
    ultimately show "h_val (ReceivedMessage m) < 10 \<and>
      calm_temperature_master (ReceivedMessage m) \<and>
      calm_co2 (ReceivedMessage m) \<and> calm_motion_audio (ReceivedMessage m)"
      using master_others_calm [of m] by (simp add: humidity_raised_master)
  next
    assume "h_val (ReceivedMessage m) < 10 \<and> calm_temperature_master (ReceivedMessage m) \<and>
      calm_co2 (ReceivedMessage m) \<and> calm_motion_audio (ReceivedMessage m)"
    then show "master_alarm m = HUM_LOW" by (simp add: master_alarm_humidity_only)
  qed
  show "(master_alarm m = HUM_HIGH) =
     (85 \<le> h_val (ReceivedMessage m) \<and> calm_temperature_master (ReceivedMessage m) \<and>
      calm_co2 (ReceivedMessage m) \<and> calm_motion_audio (ReceivedMessage m))"
  proof
    assume a: "master_alarm m = HUM_HIGH"
    then have "HUM_HIGH \<in> master_alarms m" using master_alarm_raised [of m] by simp
    moreover from a have "alarm_val (master_alarm m) \<le> 2" by simp
    ultimately show "85 \<le> h_val (ReceivedMessage m) \<and>
      calm_temperature_master (ReceivedMessage m) \<and>
      calm_co2 (ReceivedMessage m) \<and> calm_motion_audio (ReceivedMessage m)"
      using master_others_calm [of m] by (simp add: humidity_raised_master)
  next
    assume "85 \<le> h_val (ReceivedMessage m) \<and> calm_temperature_master (ReceivedMessage m) \<and>
      calm_co2 (ReceivedMessage m) \<and> calm_motion_audio (ReceivedMessage m)"
    then show "master_alarm m = HUM_HIGH" by (simp add: master_alarm_humidity_only)
  qed
qed

text \<open>
  Claim C6, as the code has it.  On the TX node and on the Master alike, a triage run
  raises \<open>HUM_LOW\<close> (its block runs and offers the alarm to the maximum) if and only if
  the humidity is below 10, raises \<open>HUM_HIGH\<close> if and only if it is at least 85, and
  raises neither exactly when the humidity is from 10 to 84.  The alarm the run returns
  is the highest one raised by any sensor, and every other alarm is numerically above
  the two humidity alarms.  So the run returns \<open>HUM_LOW\<close> if and only if the humidity is
  below 10 and no temperature, CO2, motion or audio predicate holds, and it returns
  \<open>HUM_HIGH\<close> if and only if the humidity is at least 85 and none of those holds.
\<close>

theorem humidity_alarms:
  "((HUM_LOW \<in> tx_alarms s) = (h_val (SentMessage s) < 10) \<and>
    (HUM_HIGH \<in> tx_alarms s) = (85 \<le> h_val (SentMessage s)) \<and>
    (HUM_LOW \<notin> tx_alarms s \<and> HUM_HIGH \<notin> tx_alarms s) =
      (10 \<le> h_val (SentMessage s) \<and> h_val (SentMessage s) < 85)) \<and>
   ((HUM_LOW \<in> master_alarms m) = (h_val (ReceivedMessage m) < 10) \<and>
    (HUM_HIGH \<in> master_alarms m) = (85 \<le> h_val (ReceivedMessage m)) \<and>
    (HUM_LOW \<notin> master_alarms m \<and> HUM_HIGH \<notin> master_alarms m) =
      (10 \<le> h_val (ReceivedMessage m) \<and> h_val (ReceivedMessage m) < 85)) \<and>
   ((tx_alarm s = HUM_LOW) =
      (h_val (SentMessage s) < 10 \<and> calm_temperature_tx (SentMessage s) \<and>
       no_co2_alarm_tx (SentMessage s) \<and> calm_motion_audio (SentMessage s)) \<and>
    (tx_alarm s = HUM_HIGH) =
      (85 \<le> h_val (SentMessage s) \<and> calm_temperature_tx (SentMessage s) \<and>
       no_co2_alarm_tx (SentMessage s) \<and> calm_motion_audio (SentMessage s))) \<and>
   ((master_alarm m = HUM_LOW) =
      (h_val (ReceivedMessage m) < 10 \<and> calm_temperature_master (ReceivedMessage m) \<and>
       calm_co2 (ReceivedMessage m) \<and> calm_motion_audio (ReceivedMessage m)) \<and>
    (master_alarm m = HUM_HIGH) =
      (85 \<le> h_val (ReceivedMessage m) \<and> calm_temperature_master (ReceivedMessage m) \<and>
       calm_co2 (ReceivedMessage m) \<and> calm_motion_audio (ReceivedMessage m)))"
proof (intro conjI)
  show "(HUM_LOW \<notin> tx_alarms s \<and> HUM_HIGH \<notin> tx_alarms s) =
      (10 \<le> h_val (SentMessage s) \<and> h_val (SentMessage s) < 85)"
    by (auto simp: humidity_raised_tx)
  show "(HUM_LOW \<notin> master_alarms m \<and> HUM_HIGH \<notin> master_alarms m) =
      (10 \<le> h_val (ReceivedMessage m) \<and> h_val (ReceivedMessage m) < 85)"
    by (auto simp: humidity_raised_master)
qed (rule humidity_raised_tx humidity_raised_master tx_humidity_stored
       master_humidity_stored)+

text \<open>
  The theorem at humidity 9 and 10 on the TX node and at 85 and 84 on the Master, with
  temperature 25 and the other sensors calm.
\<close>

theorem humidity_alarms_witness:
  "HUM_LOW \<in> tx_alarms (tx_with ((reading 25 100 0 0)\<lparr>h_val := 9\<rparr>)) \<and>
   tx_alarm (tx_with ((reading 25 100 0 0)\<lparr>h_val := 9\<rparr>)) = HUM_LOW \<and>
   HUM_HIGH \<in> master_alarms (master_with ((reading 25 100 0 0)\<lparr>h_val := 85\<rparr>)) \<and>
   master_alarm (master_with ((reading 25 100 0 0)\<lparr>h_val := 85\<rparr>)) = HUM_HIGH \<and>
   HUM_LOW \<notin> tx_alarms (tx_with ((reading 25 100 0 0)\<lparr>h_val := 10\<rparr>)) \<and>
   HUM_HIGH \<notin> tx_alarms (tx_with ((reading 25 100 0 0)\<lparr>h_val := 10\<rparr>)) \<and>
   tx_alarm (tx_with ((reading 25 100 0 0)\<lparr>h_val := 10\<rparr>)) \<noteq> HUM_LOW \<and>
   HUM_LOW \<notin> master_alarms (master_with ((reading 25 100 0 0)\<lparr>h_val := 84\<rparr>)) \<and>
   HUM_HIGH \<notin> master_alarms (master_with ((reading 25 100 0 0)\<lparr>h_val := 84\<rparr>)) \<and>
   master_alarm (master_with ((reading 25 100 0 0)\<lparr>h_val := 84\<rparr>)) \<noteq> HUM_HIGH"
  using humidity_alarms [of "tx_with ((reading 25 100 0 0)\<lparr>h_val := 9\<rparr>)"
          "master_with ((reading 25 100 0 0)\<lparr>h_val := 85\<rparr>)"]
        humidity_alarms [of "tx_with ((reading 25 100 0 0)\<lparr>h_val := 10\<rparr>)"
          "master_with ((reading 25 100 0 0)\<lparr>h_val := 84\<rparr>)"]
  by (simp add: tx_with_def master_with_def reading_def calm_defs no_co2_alarm_tx_def)

text \<open>
  Claim C6 as stated fails whenever another sensor is in alarm.  With the TX sketch's
  own CO2 value 450 and temperature 25, a humidity of 90 raises \<open>HUM_HIGH\<close> but the run
  returns \<open>(CO2_GOOD, DNG_LOW)\<close>, and a humidity of 5 raises \<open>HUM_LOW\<close> but the run returns
  \<open>(CO2_GOOD, DNG_NONE)\<close>; the Master does the same.
\<close>

theorem humidity_returned_counterexample:
  "h_val (SentMessage (tx_with ((reading 25 450 0 0)\<lparr>h_val := 90\<rparr>))) = 90 \<and>
   HUM_HIGH \<in> tx_alarms (tx_with ((reading 25 450 0 0)\<lparr>h_val := 90\<rparr>)) \<and>
   triage_pair (SentMessage (snd (triage_data
     (tx_with ((reading 25 450 0 0)\<lparr>h_val := 90\<rparr>))))) = (CO2_GOOD, DNG_LOW) \<and>
   h_val (SentMessage (tx_with ((reading 25 450 0 0)\<lparr>h_val := 5\<rparr>))) = 5 \<and>
   HUM_LOW \<in> tx_alarms (tx_with ((reading 25 450 0 0)\<lparr>h_val := 5\<rparr>)) \<and>
   triage_pair (SentMessage (snd (triage_data
     (tx_with ((reading 25 450 0 0)\<lparr>h_val := 5\<rparr>))))) = (CO2_GOOD, DNG_NONE) \<and>
   h_val (ReceivedMessage (master_with ((reading 25 450 0 0)\<lparr>h_val := 90\<rparr>))) = 90 \<and>
   triage_pair (ReceivedMessage (snd (triage_msg
     (master_with ((reading 25 450 0 0)\<lparr>h_val := 90\<rparr>))))) = (CO2_GOOD, DNG_LOW)"
  by (simp add: triage_eval)

section \<open>Properties of the TX node's radio set-up and command negotiation\<close>

lemmas radio_ops = radio_begin_def radio_setChannel_def radio_setPALevel_def
  radio_openWritingPipe_def radio_openReadingPipe_def radio_startListening_def
  radio_stopListening_def radio_write_def

lemma length_addresses: "length addresses = 6"
  by (simp add: addresses_def)

lemma setupTXRadio_fields:
  "radNum (setupTXRadio rn ch pat s) = (if 0 < rn \<and> rn < 6 then rn else 1)"
  "chNum (setupTXRadio rn ch pat s) = ch"
  "pwrNum (setupTXRadio rn ch pat s) = pat"
  "SentMessage (setupTXRadio rn ch pat s) = SentMessage s"
  "rf_channel (radio (setupTXRadio rn ch pat s)) = Some ch"
  "rf_pa_level (radio (setupTXRadio rn ch pat s)) = requested_pa pat"
  "rf_writing_pipe (radio (setupTXRadio rn ch pat s)) =
     Some (addresses ! nat (if 0 < rn \<and> rn < 6 then rn else 1))"
  "rf_sent (radio (setupTXRadio rn ch pat s)) = rf_sent (radio s)"
  by (simp_all add: setupTXRadio_def setPowerLevel_def checkRadioConn_def radio_ops
        requested_pa_def Let_def)

text \<open>
  Claim C10.  \<^verbatim>\<open>setupTXRadio(rn, channel, power)\<close> stores \<open>rn\<close> as the node's radio number
  when \<open>rn\<close> is one of 1 to 5 and stores 1 otherwise; so after every call the radio number
  is between 1 and 5, it indexes the six-entry address table within bounds, and the
  writing pipe is the table's entry at that index.
\<close>

theorem setupTXRadio_radNum_in_range:
  "radNum (setupTXRadio rn ch pat s) = (if 0 < rn \<and> rn < 6 then rn else 1) \<and>
   1 \<le> radNum (setupTXRadio rn ch pat s) \<and> radNum (setupTXRadio rn ch pat s) \<le> 5 \<and>
   nat (radNum (setupTXRadio rn ch pat s)) < length addresses \<and>
   rf_writing_pipe (radio (setupTXRadio rn ch pat s)) =
     Some (addresses ! nat (radNum (setupTXRadio rn ch pat s)))"
  by (auto simp: setupTXRadio_fields length_addresses)

text \<open>The theorem for the radio numbers 0, 6 and 4 on the node as it powers on.\<close>

theorem setupTXRadio_radNum_in_range_witness:
  "radNum (setupTXRadio 0 81 PA_MIN tx_power_on) = 1 \<and>
   radNum (setupTXRadio 6 81 PA_MIN tx_power_on) = 1 \<and>
   radNum (setupTXRadio 4 81 PA_MIN tx_power_on) = 4 \<and>
   rf_writing_pipe (radio (setupTXRadio 6 81 PA_MIN tx_power_on)) = Some ''2Node''"
  using setupTXRadio_radNum_in_range [of 0 81 PA_MIN tx_power_on]
        setupTXRadio_radNum_in_range [of 6 81 PA_MIN tx_power_on]
        setupTXRadio_radNum_in_range [of 4 81 PA_MIN tx_power_on]
  by (simp add: addresses_def)

subsection \<open>The command negotiator\<close>

text \<open>
  When the outgoing record carries the node's identity, the reload at the start of
  \<^verbatim>\<open>get_pong_cmd_RX\<close> changes nothing, the guard is tested against the node's identity
  and the command is applied exactly when the guard holds.
\<close>

lemma get_pong_cmd_RX_identity:
  "in_sync s \<Longrightarrow>
   node_identity (get_pong_cmd_RX (s\<lparr>PongMessage := p\<rparr>)) =
     (if guard_matches p s then command_effect p (node_identity s) else node_identity s)"
  by (simp add: in_sync_def get_pong_cmd_RX_def get_pong_cmd_def node_identity_def
        guard_matches_def command_effect_def checkRadioConn_def Let_def)

lemma get_pong_cmd_RX_sent: "rf_sent (radio (get_pong_cmd_RX s)) = rf_sent (radio s)"
  by (simp add: get_pong_cmd_RX_def get_pong_cmd_def checkRadioConn_def Let_def)

lemma get_pong_cmd_RX_my_cmd:
  "my_cmd (ping (SentMessage (get_pong_cmd_RX s))) = my_cmd (ping (SentMessage s)) \<and>
   myNum (get_pong_cmd_RX s) = my_cmd (ping (SentMessage s))"
  by (simp add: get_pong_cmd_RX_def get_pong_cmd_def checkRadioConn_def Let_def)

lemma pack_sent_msg_in_sync: "in_sync (pack_sent_msg s)"
  by (simp add: in_sync_def pack_sent_msg_def)

lemmas node_eval = tx_booted_def node5_def node3_def tx_setup_def tx_power_on_def
  initRadioValues_def setupTXRadio_def setPowerLevel_def checkRadioConn_def
  pack_sent_msg_def get_pong_cmd_RX_def get_pong_cmd_def node_identity_def in_sync_def
  guard_matches_def command_effect_def zero_data_def zero_ping_def radio_off_def
  ping_rad_5_to_3_def ping_rad_3_to_4_def ping_pa_max_5_def ping_check_2_def
  ping_all_zero_def ping_pa_7_def Let_def

text \<open>
  Claim C3 fails on the code, by a defect of the code.  \<^verbatim>\<open>get_pong_cmd_RX\<close> tests the
  guard the claim describes, the ping's channel against \<^verbatim>\<open>chNum\<close> and its target against
  \<^verbatim>\<open>radNum\<close>, but \<^verbatim>\<open>get_pong_cmd\<close> has just overwritten both, and \<^verbatim>\<open>pwrNum\<close>, with the
  ping of the outgoing record.

  After start-up the node is radio 5 on channel 81 and its outgoing record is still all
  zero.  The ping \<open>ping_rad_5_to_3\<close> (channel 81, target 5) matches the node, yet it is not
  applied: the identity becomes \<open>(0, 0, PA_MIN)\<close> instead of radio 3 on channel 81.  The
  ping \<open>ping_all_zero\<close> (channel 0, target 0) does not match the node, yet its change of
  radio number, channel and power is applied.

  After the console command that makes a transmitting radio 5 into radio 3, the
  outgoing record still says radio 5.  The ping \<open>ping_pa_max_5\<close> for target 5 does not
  match the node, yet it is applied and the node is radio 5 again, at maximum power; the
  ping \<open>ping_rad_3_to_4\<close> for target 3 matches the node, yet it is ignored.
\<close>

theorem get_pong_cmd_RX_stale_guard:
  "node_identity tx_booted = (5, 81, PA_MIN) \<and>
   guard_matches ping_rad_5_to_3 tx_booted \<and>
   command_effect ping_rad_5_to_3 (node_identity tx_booted) = (3, 81, PA_MIN) \<and>
   node_identity (get_pong_cmd_RX (tx_booted\<lparr>PongMessage := ping_rad_5_to_3\<rparr>)) =
     (0, 0, PA_MIN) \<and>
   \<not> guard_matches ping_all_zero tx_booted \<and>
   node_identity (get_pong_cmd_RX (tx_booted\<lparr>PongMessage := ping_all_zero\<rparr>)) =
     (3, 0, PA_MAX) \<and>
   node_identity node3 = (3, 81, PA_MIN) \<and>
   \<not> guard_matches ping_pa_max_5 node3 \<and>
   node_identity (get_pong_cmd_RX (node3\<lparr>PongMessage := ping_pa_max_5\<rparr>)) =
     (5, 81, PA_MAX) \<and>
   guard_matches ping_rad_3_to_4 node3 \<and>
   command_effect ping_rad_3_to_4 (node_identity node3) = (4, 81, PA_MIN) \<and>
   node_identity (get_pong_cmd_RX (node3\<lparr>PongMessage := ping_rad_3_to_4\<rparr>)) =
     (5, 81, PA_MIN)"
  by (simp add: node_eval)

subsection \<open>Receiving a ping\<close>

lemma triage_data_fields:
  "radNum (snd (triage_data s)) = radNum s"
  "chNum (snd (triage_data s)) = chNum s"
  "pwrNum (snd (triage_data s)) = pwrNum s"
  "radio (snd (triage_data s)) = radio s"
  "r_cmd (ping (SentMessage (snd (triage_data s)))) = r_cmd (ping (SentMessage s))"
  "ch_cmd (ping (SentMessage (snd (triage_data s)))) = ch_cmd (ping (SentMessage s))"
  "pa_cmd (ping (SentMessage (snd (triage_data s)))) = pa_cmd (ping (SentMessage s))"
  "my_cmd (ping (SentMessage (snd (triage_data s)))) = my_cmd (ping (SentMessage s))"
  by (simp_all add: triage_data_def Let_def)

lemma transmit_response_fields:
  "radNum (transmit_response_to_RX True s) = radNum s"
  "chNum (transmit_response_to_RX True s) = chNum s"
  "pwrNum (transmit_response_to_RX True s) = pwrNum s"
  "r_cmd (ping (SentMessage (transmit_response_to_RX True s))) = radNum s"
  "ch_cmd (ping (SentMessage (transmit_response_to_RX True s))) = chNum s"
  "pa_cmd (ping (SentMessage (transmit_response_to_RX True s))) = pwrNum s"
  "my_cmd (ping (SentMessage (transmit_response_to_RX True s))) = myNum s"
  "rf_sent (radio (transmit_response_to_RX True s)) = rf_sent (radio s) @
     [\<lparr>frame_channel = rf_channel (radio s), frame_pa = rf_pa_level (radio s),
       frame_address = rf_writing_pipe (radio s),
       frame_payload = SentMessage (transmit_response_to_RX True s)\<rparr>]"
  by (simp_all add: transmit_response_to_RX_def Let_def triage_data_fields pack_sent_msg_def
        radio_ops)

lemma receive_msg_unfold:
  "receive_msg (Some p) s =
     transmit_response_to_RX True
       ((setupTXRadio (radNum (get_pong_cmd_RX (s\<lparr>PongMessage := p\<rparr>)))
          (chNum (get_pong_cmd_RX (s\<lparr>PongMessage := p\<rparr>)))
          (pwrNum (get_pong_cmd_RX (s\<lparr>PongMessage := p\<rparr>)))
          (get_pong_cmd_RX (s\<lparr>PongMessage := p\<rparr>)))\<lparr>respFlag := True\<rparr>)"
  by (simp add: receive_msg_def Let_def)

lemma setupTXRadio_myNum: "myNum (setupTXRadio rn ch pat s) = myNum s"
  by (simp add: setupTXRadio_def setPowerLevel_def checkRadioConn_def Let_def)

lemma receive_msg_fields:
  "chNum (receive_msg (Some p) s) = chNum (get_pong_cmd_RX (s\<lparr>PongMessage := p\<rparr>))"
  "pwrNum (receive_msg (Some p) s) = pwrNum (get_pong_cmd_RX (s\<lparr>PongMessage := p\<rparr>))"
  "radNum (receive_msg (Some p) s) =
     (if 0 < radNum (get_pong_cmd_RX (s\<lparr>PongMessage := p\<rparr>)) \<and>
         radNum (get_pong_cmd_RX (s\<lparr>PongMessage := p\<rparr>)) < 6
      then radNum (get_pong_cmd_RX (s\<lparr>PongMessage := p\<rparr>)) else 1)"
  "r_cmd (ping (SentMessage (receive_msg (Some p) s))) = radNum (receive_msg (Some p) s)"
  "ch_cmd (ping (SentMessage (receive_msg (Some p) s))) = chNum (receive_msg (Some p) s)"
  "pa_cmd (ping (SentMessage (receive_msg (Some p) s))) = pwrNum (receive_msg (Some p) s)"
  unfolding receive_msg_unfold
  by (simp_all add: transmit_response_fields setupTXRadio_fields)

lemma receive_msg_my_cmd:
  "my_cmd (ping (SentMessage (receive_msg (Some p) s))) = my_cmd (ping (SentMessage s))"
  using get_pong_cmd_RX_my_cmd [of "s\<lparr>PongMessage := p\<rparr>"]
  unfolding receive_msg_unfold
  by (simp add: transmit_response_fields setupTXRadio_myNum)

lemma receive_msg_radio:
  "rf_channel (radio (receive_msg (Some p) s)) = Some (chNum (receive_msg (Some p) s))"
  "rf_pa_level (radio (receive_msg (Some p) s)) =
     requested_pa (pwrNum (receive_msg (Some p) s))"
  "rf_writing_pipe (radio (receive_msg (Some p) s)) =
     Some (addresses ! nat (radNum (receive_msg (Some p) s)))"
  unfolding receive_msg_unfold
  by (simp_all add: transmit_response_to_RX_def Let_def triage_data_fields pack_sent_msg_def
        radio_ops setupTXRadio_fields)

lemma receive_msg_sent:
  "rf_sent (radio (receive_msg (Some p) s)) = rf_sent (radio s) @
     [\<lparr>frame_channel = Some (chNum (receive_msg (Some p) s)),
       frame_pa = requested_pa (pwrNum (receive_msg (Some p) s)),
       frame_address = Some (addresses ! nat (radNum (receive_msg (Some p) s))),
       frame_payload = SentMessage (receive_msg (Some p) s)\<rparr>]"
  unfolding receive_msg_unfold
  by (simp add: transmit_response_fields setupTXRadio_fields get_pong_cmd_RX_sent)

text \<open>
  Claim C7 fails on the code, by the defect described under claim C3.  After start-up
  the node is radio 5 on channel 81 with an outgoing record that is still all zero.  The
  Master's check of radio 2 (\<open>ping_check_2\<close>, command kind \<open>nada\<close>) and its renumbering
  of radio 3 (\<open>ping_rad_3_to_4\<close>) both fail the guard, and each receipt leaves the node
  as radio 1 on channel 0: \<^verbatim>\<open>get_pong_cmd\<close> has reloaded the identity from the zero
  record and \<^verbatim>\<open>setupTXRadio\<close> has replaced radio number 0 by 1.  The node also answers
  the ping it should ignore: it sends one frame, on channel 0.
\<close>

theorem receive_msg_mismatch_changes_identity:
  "node_identity tx_booted = (5, 81, PA_MIN) \<and>
   \<not> guard_matches ping_check_2 tx_booted \<and>
   node_identity (receive_msg (Some ping_check_2) tx_booted) = (1, 0, PA_MIN) \<and>
   \<not> guard_matches ping_rad_3_to_4 tx_booted \<and>
   node_identity (receive_msg (Some ping_rad_3_to_4) tx_booted) = (1, 0, PA_MIN) \<and>
   map frame_channel (rf_sent (radio (receive_msg (Some ping_check_2) tx_booted))) =
     [Some 0]"
proof -
  have a: "node_identity (get_pong_cmd_RX (tx_booted\<lparr>PongMessage := ping_check_2\<rparr>)) =
      (0, 0, PA_MIN)"
    and b: "node_identity (get_pong_cmd_RX (tx_booted\<lparr>PongMessage := ping_rad_3_to_4\<rparr>)) =
      (0, 0, PA_MIN)"
    by (simp_all add: node_eval)
  have c: "node_identity (receive_msg (Some ping_check_2) tx_booted) = (1, 0, PA_MIN)"
    using a by (simp add: node_identity_def receive_msg_fields)
  have d: "node_identity (receive_msg (Some ping_rad_3_to_4) tx_booted) = (1, 0, PA_MIN)"
    using b by (simp add: node_identity_def receive_msg_fields)
  have e: "rf_sent (radio tx_booted) = []"
    by (simp add: node_eval radio_ops)
  have f: "map frame_channel (rf_sent (radio (receive_msg (Some ping_check_2) tx_booted))) =
      [Some 0]"
    using c e by (simp add: receive_msg_sent node_identity_def)
  have g: "node_identity tx_booted = (5, 81, PA_MIN)"
    "\<not> guard_matches ping_check_2 tx_booted" "\<not> guard_matches ping_rad_3_to_4 tx_booted"
    by (simp_all add: node_eval)
  from c d f g show ?thesis by simp
qed

text \<open>
  Claim C8, as the code has it.  On every receipt of a ping, \<^verbatim>\<open>receive_msg\<close> runs the
  command dispatch, then \<^verbatim>\<open>setupTXRadio\<close> with the radio number, channel and power the
  dispatch left, and only then sends the reply.  So the node's channel and power after
  the receipt are those the dispatch left, its radio number is the dispatch's when that
  is one of 1 to 5 and 1 otherwise, and the receipt sends exactly one frame: it goes out
  on that channel and on the writing pipe of that radio number, and its payload carries
  the node's radio number, channel and power.  The frame goes out at the node's power
  when that is one of \<open>PA_MIN\<close>, \<open>PA_LOW\<close>, \<open>PA_HIGH\<close>, \<open>PA_MAX\<close>; for any other value
  \<^verbatim>\<open>setPowerLevel\<close> sets nothing and the frame goes out at the driver's default power.
  The reply's command kind is the one the outgoing record held before the receipt; the
  code never makes it \<open>response\<close>.  The radio keeps these settings after the reply.
\<close>

theorem receive_msg_reinit_before_reply:
  "chNum (receive_msg (Some p) s) = chNum (get_pong_cmd_RX (s\<lparr>PongMessage := p\<rparr>)) \<and>
   pwrNum (receive_msg (Some p) s) = pwrNum (get_pong_cmd_RX (s\<lparr>PongMessage := p\<rparr>)) \<and>
   radNum (receive_msg (Some p) s) =
     (if 0 < radNum (get_pong_cmd_RX (s\<lparr>PongMessage := p\<rparr>)) \<and>
         radNum (get_pong_cmd_RX (s\<lparr>PongMessage := p\<rparr>)) < 6
      then radNum (get_pong_cmd_RX (s\<lparr>PongMessage := p\<rparr>)) else 1) \<and>
   rf_sent (radio (receive_msg (Some p) s)) = rf_sent (radio s) @
     [\<lparr>frame_channel = Some (chNum (receive_msg (Some p) s)),
       frame_pa = requested_pa (pwrNum (receive_msg (Some p) s)),
       frame_address = Some (addresses ! nat (radNum (receive_msg (Some p) s))),
       frame_payload = SentMessage (receive_msg (Some p) s)\<rparr>] \<and>
   r_cmd (ping (SentMessage (receive_msg (Some p) s))) = radNum (receive_msg (Some p) s) \<and>
   ch_cmd (ping (SentMessage (receive_msg (Some p) s))) = chNum (receive_msg (Some p) s) \<and>
   pa_cmd (ping (SentMessage (receive_msg (Some p) s))) = pwrNum (receive_msg (Some p) s) \<and>
   my_cmd (ping (SentMessage (receive_msg (Some p) s))) = my_cmd (ping (SentMessage s)) \<and>
   rf_channel (radio (receive_msg (Some p) s)) = Some (chNum (receive_msg (Some p) s)) \<and>
   rf_pa_level (radio (receive_msg (Some p) s)) =
     requested_pa (pwrNum (receive_msg (Some p) s)) \<and>
   rf_writing_pipe (radio (receive_msg (Some p) s)) =
     Some (addresses ! nat (radNum (receive_msg (Some p) s)))"
  by (simp only: receive_msg_fields receive_msg_sent receive_msg_radio receive_msg_my_cmd
        simp_thms)

text \<open>
  The theorem at \<open>node5\<close> and the Master's command that raises radio 5 to maximum power:
  the reply is the only frame, sent on channel 81 at maximum power on the pipe of radio 5.
\<close>

theorem receive_msg_reinit_before_reply_witness:
  "pwrNum (receive_msg (Some ping_pa_max_5) node5) = PA_MAX \<and>
   map (\<lambda>f. (frame_channel f, frame_pa f, frame_address f))
     (rf_sent (radio (receive_msg (Some ping_pa_max_5) node5))) =
     [(Some 81, Some RF24_PA_MAX, Some ''6Node'')] \<and>
   pa_cmd (ping (frame_payload (last (rf_sent (radio (receive_msg (Some ping_pa_max_5) node5))))))
     = PA_MAX"
proof -
  have "node_identity (get_pong_cmd_RX (node5\<lparr>PongMessage := ping_pa_max_5\<rparr>)) =
      (5, 81, PA_MAX)"
    by (simp add: node_eval)
  moreover have "rf_sent (radio node5) = []"
    by (simp add: node_eval radio_ops)
  ultimately show ?thesis
    using receive_msg_reinit_before_reply [of ping_pa_max_5 node5]
    by (simp add: node_identity_def addresses_def requested_pa_def)
qed

text \<open>
  Claim C8 as stated fails in two ways.  The reply is not an acknowledge: \<open>node5\<close>
  answers the Master's command \<open>ping_pa_max_5\<close> with command kind \<open>nada\<close>, not
  \<open>response\<close>.  And the radio is not always set to the node's power: on \<open>ping_pa_7\<close> the
  node's power becomes 7, \<^verbatim>\<open>setPowerLevel\<close> takes its \<^verbatim>\<open>default\<close> branch, and the reply
  goes out at the driver's default power.
\<close>

theorem receive_msg_reply_counterexample:
  "my_cmd (ping (frame_payload (last (rf_sent (radio
     (receive_msg (Some ping_pa_max_5) node5)))))) = nada \<and>
   my_cmd (ping (frame_payload (last (rf_sent (radio
     (receive_msg (Some ping_pa_max_5) node5)))))) \<noteq> response \<and>
   pwrNum (receive_msg (Some ping_pa_7) node5) = 7 \<and>
   map frame_pa (rf_sent (radio (receive_msg (Some ping_pa_7) node5))) = [None]"
proof -
  have a: "my_cmd (ping (SentMessage node5)) = nada" "rf_sent (radio node5) = []"
    by (simp_all add: node_eval radio_ops)
  have b: "node_identity (get_pong_cmd_RX (node5\<lparr>PongMessage := ping_pa_7\<rparr>)) = (5, 81, 7)"
    by (simp add: node_eval)
  have c: "pwrNum (receive_msg (Some ping_pa_7) node5) = 7"
    using b by (simp add: node_identity_def receive_msg_fields)
  from a c show ?thesis
    by (simp add: receive_msg_sent receive_msg_my_cmd requested_pa_def)
qed

section \<open>Properties of the Master's standalone ping\<close>

text \<open>
  Claim C9.  For every command kind, channel, radio number, power and target,
  \<^verbatim>\<open>send_ping_cmd\<close> transmits exactly one frame; its payload is the ping built from the
  five arguments with alarm \<open>ALM_NONE\<close> and danger \<open>DNG_NONE\<close>, which is also what
  \<^verbatim>\<open>PingMessage\<close> holds afterwards.
\<close>

theorem send_ping_cmd_alarm_none:
  "map frame_payload (rf_sent (master_radio (send_ping_cmd cmd ch rn pat target m))) =
     map frame_payload (rf_sent (master_radio m)) @
       [\<lparr>my_cmd = cmd, ch_cmd = ch, r_cmd = rn, pa_cmd = pat, tar_cmd = target,
         alm_cmd = ALM_NONE, dng_cmd = DNG_NONE\<rparr>] \<and>
   alm_cmd (frame_payload (last (rf_sent (master_radio
     (send_ping_cmd cmd ch rn pat target m))))) = ALM_NONE \<and>
   dng_cmd (frame_payload (last (rf_sent (master_radio
     (send_ping_cmd cmd ch rn pat target m))))) = DNG_NONE \<and>
   alm_cmd (PingMessage (send_ping_cmd cmd ch rn pat target m)) = ALM_NONE \<and>
   dng_cmd (PingMessage (send_ping_cmd cmd ch rn pat target m)) = DNG_NONE"
  by (simp add: send_ping_cmd_def radio_ops Let_def)

text \<open>
  The theorem at the Master's command that raises radio 5 to maximum power, sent from
  the Master as it powers on, and at a Master whose \<^verbatim>\<open>PingMessage\<close> held other alarm
  fields before.
\<close>

theorem send_ping_cmd_alarm_none_witness:
  "map frame_payload (rf_sent (master_radio
     (send_ping_cmd pa_chg 81 5 PA_MAX 5 master_power_on))) = [ping_pa_max_5] \<and>
   alm_cmd (PingMessage (send_ping_cmd nada 81 2 PA_MIN 2
     (master_power_on\<lparr>PingMessage := zero_ping\<lparr>alm_cmd := TEMP_FIRE, dng_cmd := DNG_MAX\<rparr>\<rparr>)))
     = ALM_NONE"
  using send_ping_cmd_alarm_none [of pa_chg 81 5 PA_MAX 5 master_power_on]
    send_ping_cmd_alarm_none [of nada 81 2 PA_MIN 2
      "master_power_on\<lparr>PingMessage := zero_ping\<lparr>alm_cmd := TEMP_FIRE, dng_cmd := DNG_MAX\<rparr>\<rparr>"]
  by (simp add: master_power_on_def radio_off_def ping_pa_max_5_def)

end
